theory Spec2Isabelle
  imports Main
begin

unbundle bit_operations_syntax

section \<open>Memory: blocks of int cells\<close>

text \<open>
  The C code works on \<^verbatim>\<open>int *\<close> buffers (the suffix array \<^verbatim>\<open>SA\<close>, the bucket tables)
  that it reads and overwrites cell by cell through computed offsets.  A buffer is modelled
  as a store \<open>mem\<close> from int offsets to int cells.  The store is a binary trie over the
  binary digits of the offset, so that a read or a write of a concrete offset is a handful
  of rewrite steps; \<open>rd\<close> and \<open>wr\<close> satisfy the two laws of an array
  (\<open>rd_wr\<close> below), and nothing else about the representation is used.

  A cell holds a C \<^verbatim>\<open>int\<close>.  Cells are modelled as unbounded \<open>int\<close>: signed overflow is
  undefined in C and every value the code computes from an input of length
  \<open>n \<le> INT_MAX\<close> stays in the 32-bit range.  The bit operations of the source
  (\<^verbatim>\<open>& INT_MAX\<close>, \<^verbatim>\<open>| INT_MIN\<close>, \<^verbatim>\<open>^ INT_MIN\<close>) are the two's-complement operations
  of \<open>int\<close>, which agree with the 32-bit ones on that range.
\<close>

datatype trie = Lf | Nd int trie trie

fun getn :: "trie \<Rightarrow> num \<Rightarrow> int" where
  "getn Lf k = 0"
| "getn (Nd v l r) num.One = v"
| "getn (Nd v l r) (num.Bit0 k) = getn l k"
| "getn (Nd v l r) (num.Bit1 k) = getn r k"

fun setn :: "trie \<Rightarrow> num \<Rightarrow> int \<Rightarrow> trie" where
  "setn Lf num.One x = Nd x Lf Lf"
| "setn Lf (num.Bit0 k) x = Nd 0 (setn Lf k x) Lf"
| "setn Lf (num.Bit1 k) x = Nd 0 Lf (setn Lf k x)"
| "setn (Nd v l r) num.One x = Nd x l r"
| "setn (Nd v l r) (num.Bit0 k) x = Nd v (setn l k x) r"
| "setn (Nd v l r) (num.Bit1 k) x = Nd v l (setn r k x)"

text \<open>\<open>Mem z p q\<close>: cell 0, the cells at positive offsets, the cells at negative offsets.\<close>

datatype mem = Mem int trie trie

definition rd :: "mem \<Rightarrow> int \<Rightarrow> int" where
  "rd M i = (case M of Mem z p q \<Rightarrow>
     if i = 0 then z
     else if 0 < i then getn p (num_of_nat (nat i))
     else getn q (num_of_nat (nat (- i))))"

definition wr :: "mem \<Rightarrow> int \<Rightarrow> int \<Rightarrow> mem" where
  "wr M i x = (case M of Mem z p q \<Rightarrow>
     if i = 0 then Mem x p q
     else if 0 < i then Mem z (setn p (num_of_nat (nat i)) x) q
     else Mem z p (setn q (num_of_nat (nat (- i))) x))"

lemma rd_code [code]:
  "rd (Mem z p q) 0 = z"
  "rd (Mem z p q) (Int.Pos k) = getn p k"
  "rd (Mem z p q) (Int.Neg k) = getn q k"
  by (simp_all add: rd_def Int.Pos_def Int.Neg_def)

lemma wr_code [code]:
  "wr (Mem z p q) 0 x = Mem x p q"
  "wr (Mem z p q) (Int.Pos k) x = Mem z (setn p k x) q"
  "wr (Mem z p q) (Int.Neg k) x = Mem z p (setn q k x)"
  by (simp_all add: wr_def Int.Pos_def Int.Neg_def)

lemma getn_setn: "getn (setn t k x) k' = (if k' = k then x else getn t k')"
proof (induction t k x arbitrary: k' rule: setn.induct)
  case (1 x) then show ?case by (cases k') simp_all
next
  case (2 k x) then show ?case by (cases k') simp_all
next
  case (3 k x) then show ?case by (cases k') simp_all
next
  case (4 v l r x) then show ?case by (cases k') simp_all
next
  case (5 v l r k x) then show ?case by (cases k') simp_all
next
  case (6 v l r k x) then show ?case by (cases k') simp_all
qed

lemma num_of_nat_eq_iff:
  "0 < a \<Longrightarrow> 0 < b \<Longrightarrow> num_of_nat a = num_of_nat b \<longleftrightarrow> a = b"
  by (metis num_of_nat_inverse)

lemma rd_wr: "rd (wr M i x) j = (if j = i then x else rd M j)"
proof (cases M)
  case (Mem z p q)
  show ?thesis
    unfolding Mem rd_def wr_def
    by (auto simp: getn_setn num_of_nat_eq_iff)
qed

lemma rd_wr_same [simp]: "rd (wr M i x) i = x"
  by (simp add: rd_wr)

lemma rd_wr_other [simp]: "j \<noteq> i \<Longrightarrow> rd (wr M i x) j = rd M j"
  by (simp add: rd_wr)

text \<open>\<^verbatim>\<open>buckets[i]++\<close> and \<^verbatim>\<open>buckets[i]--\<close>.\<close>

definition incr :: "mem \<Rightarrow> int \<Rightarrow> mem" where
  "incr M i = wr M i (rd M i + 1)"

definition decr :: "mem \<Rightarrow> int \<Rightarrow> mem" where
  "decr M i = wr M i (rd M i - 1)"

text \<open>\<^verbatim>\<open>memset(&M[b], 0, c * sizeof(int))\<close>: the \<open>c\<close> cells from \<open>b\<close> on become 0.\<close>

fun zero_cells :: "mem \<Rightarrow> int \<Rightarrow> nat \<Rightarrow> mem" where
  "zero_cells M b 0 = M"
| "zero_cells M b (Suc c) = wr (zero_cells M b c) (b + int c) 0"

definition memset0 :: "mem \<Rightarrow> int \<Rightarrow> int \<Rightarrow> mem" where
  "memset0 M b c = zero_cells M b (nat c)"

lemma rd_zero_cells:
  "rd (zero_cells M b c) j = (if b \<le> j \<and> j < b + int c then 0 else rd M j)"
  by (induction c) (auto simp: rd_wr)

lemma rd_memset0:
  "rd (memset0 M b c) j = (if b \<le> j \<and> j < b + c then 0 else rd M j)"
  by (auto simp: memset0_def rd_zero_cells)

section \<open>Constants and index macros\<close>

definition INT_MIN :: int where "INT_MIN = - 2147483648"
definition INT_MAX :: int where "INT_MAX = 2147483647"
definition ALPHABET_SIZE :: int where "ALPHABET_SIZE = 256"
definition UCHAR_MAX :: int where "UCHAR_MAX = 255"

definition BUCKETS_INDEX2 :: "int \<Rightarrow> int \<Rightarrow> int" where
  "BUCKETS_INDEX2 c s = 2 * c + s"

definition BUCKETS_INDEX4 :: "int \<Rightarrow> int \<Rightarrow> int" where
  "BUCKETS_INDEX4 c s = 4 * c + s"

text \<open>
  The input text of the byte path is a read-only \<^verbatim>\<open>const unsigned char *\<close>: a \<open>string\<close>
  (a list of 8-bit characters).  \<open>byte_at T i\<close> is \<^verbatim>\<open>T[i]\<close> widened to an integer.  A read
  outside the buffer is undefined in C; the model gives 0 there.
\<close>

definition byte_at :: "string \<Rightarrow> int \<Rightarrow> int" where
  "byte_at T i = (if 0 \<le> i \<and> i < int (length T) then of_char (T ! nat i) else 0)"

section \<open>Loops\<close>

text \<open>
  The scans of the source are counted \<^verbatim>\<open>for\<close> loops whose body is one read-modify-write
  step at index \<open>i\<close>.  Each scan is written twice in the source: a loop unrolled by 2, 4
  or 8 that stops short of the end (so that its prefetches stay inside the buffer),
  followed by a loop in steps of one that finishes the range.  The prefetches themselves
  have no effect on the state and are left out; the loop structure is kept.

  \<open>for_down j f i s\<close> is \<^verbatim>\<open>for (; i >= j; i -= 1) s = f(i, s);\<close> and returns the final
  \<open>i\<close> with the state; \<open>for_down2\<close> and \<open>for_down4\<close> are the unrolled forms, whose body
  runs the step at \<open>i\<close>, \<open>i - 1\<close>, ...; \<open>for_up\<close>, \<open>for_up2\<close>, \<open>for_up4\<close>, \<open>for_up8\<close> are
  \<^verbatim>\<open>for (; i < j; i += 1)\<close> and its unrolled forms.
\<close>

function for_down :: "int \<Rightarrow> (int \<Rightarrow> 'a \<Rightarrow> 'a) \<Rightarrow> int \<Rightarrow> 'a \<Rightarrow> int \<times> 'a" where
  "for_down j f i s = (if i \<ge> j then for_down j f (i - 1) (f i s) else (i, s))"
  by pat_completeness auto
termination
  by (relation "measure (\<lambda>(j, f, i, s). nat (i - j + 1))") auto

function for_down2 :: "int \<Rightarrow> (int \<Rightarrow> 'a \<Rightarrow> 'a) \<Rightarrow> int \<Rightarrow> 'a \<Rightarrow> int \<times> 'a" where
  "for_down2 j f i s =
     (if i \<ge> j then for_down2 j f (i - 2) (f (i - 1) (f i s)) else (i, s))"
  by pat_completeness auto
termination
  by (relation "measure (\<lambda>(j, f, i, s). nat (i - j + 1))") auto

function for_down4 :: "int \<Rightarrow> (int \<Rightarrow> 'a \<Rightarrow> 'a) \<Rightarrow> int \<Rightarrow> 'a \<Rightarrow> int \<times> 'a" where
  "for_down4 j f i s =
     (if i \<ge> j then for_down4 j f (i - 4) (f (i - 3) (f (i - 2) (f (i - 1) (f i s))))
      else (i, s))"
  by pat_completeness auto
termination
  by (relation "measure (\<lambda>(j, f, i, s). nat (i - j + 1))") auto

function for_up :: "int \<Rightarrow> (int \<Rightarrow> 'a \<Rightarrow> 'a) \<Rightarrow> int \<Rightarrow> 'a \<Rightarrow> int \<times> 'a" where
  "for_up j f i s = (if i < j then for_up j f (i + 1) (f i s) else (i, s))"
  by pat_completeness auto
termination
  by (relation "measure (\<lambda>(j, f, i, s). nat (j - i))") auto

function for_up2 :: "int \<Rightarrow> (int \<Rightarrow> 'a \<Rightarrow> 'a) \<Rightarrow> int \<Rightarrow> 'a \<Rightarrow> int \<times> 'a" where
  "for_up2 j f i s =
     (if i < j then for_up2 j f (i + 2) (f (i + 1) (f i s)) else (i, s))"
  by pat_completeness auto
termination
  by (relation "measure (\<lambda>(j, f, i, s). nat (j - i))") auto

function for_up4 :: "int \<Rightarrow> (int \<Rightarrow> 'a \<Rightarrow> 'a) \<Rightarrow> int \<Rightarrow> 'a \<Rightarrow> int \<times> 'a" where
  "for_up4 j f i s =
     (if i < j then for_up4 j f (i + 4) (f (i + 3) (f (i + 2) (f (i + 1) (f i s))))
      else (i, s))"
  by pat_completeness auto
termination
  by (relation "measure (\<lambda>(j, f, i, s). nat (j - i))") auto

function for_up8 :: "int \<Rightarrow> (int \<Rightarrow> 'a \<Rightarrow> 'a) \<Rightarrow> int \<Rightarrow> 'a \<Rightarrow> int \<times> 'a" where
  "for_up8 j f i s =
     (if i < j
      then for_up8 j f (i + 8)
             (f (i + 7) (f (i + 6) (f (i + 5) (f (i + 4)
               (f (i + 3) (f (i + 2) (f (i + 1) (f i s))))))))
      else (i, s))"
  by pat_completeness auto
termination
  by (relation "measure (\<lambda>(j, f, i, s). nat (j - i))") auto

declare for_down.simps [simp del] for_down2.simps [simp del] for_down4.simps [simp del]
declare for_up.simps [simp del] for_up2.simps [simp del] for_up4.simps [simp del]
declare for_up8.simps [simp del]

lemma for_down_step: "j \<le> i \<Longrightarrow> for_down j f i s = for_down j f (i - 1) (f i s)"
  by (simp add: for_down.simps[of j f i s])

lemma for_down_stop: "i < j \<Longrightarrow> for_down j f i s = (i, s)"
  by (simp add: for_down.simps[of j f i s])

lemma for_up_step: "i < j \<Longrightarrow> for_up j f i s = for_up j f (i + 1) (f i s)"
  by (simp add: for_up.simps[of j f i s])

lemma for_up_stop: "j \<le> i \<Longrightarrow> for_up j f i s = (i, s)"
  by (simp add: for_up.simps[of j f i s])

lemma for_down_inv:
  assumes "P i s"
    and "\<And>k t. j \<le> k \<Longrightarrow> k \<le> i \<Longrightarrow> P k t \<Longrightarrow> P (k - 1) (f k t)"
    and "j \<le> i + 1"
  shows "fst (for_down j f i s) = j - 1 \<and> P (j - 1) (snd (for_down j f i s))"
  using assms
proof (induction j f i s rule: for_down.induct)
  case (1 j f i s)
  show ?case
  proof (cases "i \<ge> j")
    case True
    have "P (i - 1) (f i s)" using 1(2) 1(3)[of i s] True by simp
    moreover have "\<And>k t. j \<le> k \<Longrightarrow> k \<le> i - 1 \<Longrightarrow> P k t \<Longrightarrow> P (k - 1) (f k t)"
      using 1(3) by simp
    ultimately show ?thesis
      using 1(1)[OF True] True by (simp add: for_down_step)
  next
    case False
    then have "i = j - 1" using 1(4) by simp
    then show ?thesis using 1(2) False by (simp add: for_down_stop)
  qed
qed

lemma for_up_inv:
  assumes "P i s"
    and "\<And>k t. i \<le> k \<Longrightarrow> k < j \<Longrightarrow> P k t \<Longrightarrow> P (k + 1) (f k t)"
    and "i \<le> j"
  shows "fst (for_up j f i s) = j \<and> P j (snd (for_up j f i s))"
  using assms
proof (induction j f i s rule: for_up.induct)
  case (1 j f i s)
  show ?case
  proof (cases "i < j")
    case True
    have "P (i + 1) (f i s)" using 1(2) 1(3)[of i s] True by simp
    moreover have "\<And>k t. i + 1 \<le> k \<Longrightarrow> k < j \<Longrightarrow> P k t \<Longrightarrow> P (k + 1) (f k t)"
      using 1(3) by simp
    ultimately show ?thesis
      using 1(1)[OF True] True by (simp add: for_up_step)
  next
    case False
    then have "i = j" using 1(4) by simp
    then show ?thesis using 1(2) False by (simp add: for_up_stop)
  qed
qed

lemma for_down2_collapse:
  "j + 1 \<le> j' \<Longrightarrow> (case for_down2 j' f i s of (i', s') \<Rightarrow> for_down j f i' s') = for_down j f i s"
proof (induction j' f i s rule: for_down2.induct)
  case (1 j' f i s)
  show ?case
  proof (cases "i \<ge> j'")
    case True
    have "for_down j f i s = for_down j f (i - 2) (f (i - 1) (f i s))"
      using True 1(2) by (simp add: for_down_step)
    then show ?thesis using 1(1)[OF True 1(2)] True
      by (simp add: for_down2.simps[of j' f i s])
  next
    case False
    then show ?thesis by (simp add: for_down2.simps[of j' f i s])
  qed
qed

lemma for_down4_collapse:
  "j + 3 \<le> j' \<Longrightarrow> (case for_down4 j' f i s of (i', s') \<Rightarrow> for_down j f i' s') = for_down j f i s"
proof (induction j' f i s rule: for_down4.induct)
  case (1 j' f i s)
  show ?case
  proof (cases "i \<ge> j'")
    case True
    have "for_down j f i s = for_down j f (i - 4) (f (i - 3) (f (i - 2) (f (i - 1) (f i s))))"
      using True 1(2) by (simp add: for_down_step)
    then show ?thesis using 1(1)[OF True 1(2)] True
      by (simp add: for_down4.simps[of j' f i s])
  next
    case False
    then show ?thesis by (simp add: for_down4.simps[of j' f i s])
  qed
qed

lemma for_up2_collapse:
  "j' + 1 \<le> j \<Longrightarrow> (case for_up2 j' f i s of (i', s') \<Rightarrow> for_up j f i' s') = for_up j f i s"
proof (induction j' f i s rule: for_up2.induct)
  case (1 j' f i s)
  show ?case
  proof (cases "i < j'")
    case True
    have "for_up j f i s = for_up j f (i + 2) (f (i + 1) (f i s))"
      using True 1(2) by (simp add: for_up_step add.commute)
    then show ?thesis using 1(1)[OF True 1(2)] True
      by (simp add: for_up2.simps[of j' f i s])
  next
    case False
    then show ?thesis by (simp add: for_up2.simps[of j' f i s])
  qed
qed

lemma for_up4_collapse:
  "j' + 3 \<le> j \<Longrightarrow> (case for_up4 j' f i s of (i', s') \<Rightarrow> for_up j f i' s') = for_up j f i s"
proof (induction j' f i s rule: for_up4.induct)
  case (1 j' f i s)
  show ?case
  proof (cases "i < j'")
    case True
    have "for_up j f i s = for_up j f (i + 4) (f (i + 3) (f (i + 2) (f (i + 1) (f i s))))"
      using True 1(2) by (simp add: for_up_step add.commute)
    then show ?thesis using 1(1)[OF True 1(2)] True
      by (simp add: for_up4.simps[of j' f i s])
  next
    case False
    then show ?thesis by (simp add: for_up4.simps[of j' f i s])
  qed
qed

lemma for_up8_collapse:
  "j' + 7 \<le> j \<Longrightarrow> (case for_up8 j' f i s of (i', s') \<Rightarrow> for_up j f i' s') = for_up j f i s"
proof (induction j' f i s rule: for_up8.induct)
  case (1 j' f i s)
  show ?case
  proof (cases "i < j'")
    case True
    have "for_up j f i s = for_up j f (i + 8)
             (f (i + 7) (f (i + 6) (f (i + 5) (f (i + 4)
               (f (i + 3) (f (i + 2) (f (i + 1) (f i s))))))))"
      using True 1(2) by (simp add: for_up_step add.commute)
    then show ?thesis using 1(1)[OF True 1(2)] True
      by (simp add: for_up8.simps[of j' f i s])
  next
    case False
    then show ?thesis by (simp add: for_up8.simps[of j' f i s])
  qed
qed


section \<open>Type scanner of the byte path\<close>

text \<open>
  \<^verbatim>\<open>libsais_count_and_gather_lms_suffixes_8u\<close> scans the block
  \<open>[omp_block_start, omp_block_start + omp_block_size)\<close> of the text from right to left.
  The state of the scan is \<open>(c0, s, m, SA, buckets)\<close>: the symbol read last, the type bits
  (bit 0 of \<open>s\<close> is the type of the position read last, 1 for L), the write index into
  \<open>SA\<close>, and the two buffers.  The four statements of the unrolled body and the statement
  of the loop in steps of one are the same step with the roles of \<^verbatim>\<open>c0\<close> and \<^verbatim>\<open>c1\<close>
  exchanged; \<open>lms_scan_step c1 i\<close> is that step, \<open>c1\<close> being the symbol read at \<open>i\<close>.
\<close>

text \<open>\<^verbatim>\<open>s << 1\<close> on a 64-bit \<^verbatim>\<open>size_t\<close>.\<close>

definition shl1 :: "int \<Rightarrow> int" where
  "shl1 s = (2 * s) mod 2 ^ 64"

function skip_equal :: "string \<Rightarrow> int \<Rightarrow> int \<Rightarrow> int \<Rightarrow> int \<Rightarrow> int \<times> int" where
  "skip_equal T n c0 j c1 =
     (if j < n
      then (let c1 = byte_at T j in if c1 = c0 then skip_equal T n c0 (j + 1) c1 else (j, c1))
      else (j, c1))"
  by pat_completeness auto
termination
  by (relation "measure (\<lambda>(T, n, c0, j, c1). nat (n - j))") auto

declare skip_equal.simps [simp del]

definition lms_scan_step :: "int \<Rightarrow> int \<Rightarrow> int \<times> int \<times> int \<times> mem \<times> mem
    \<Rightarrow> int \<times> int \<times> int \<times> mem \<times> mem" where
  "lms_scan_step c1 i = (\<lambda>(c0, s, m, SA, buckets).
     let s = shl1 s + of_bool (c1 > c0 - (s AND 1));
         SA = wr SA m (i + 1);
         m = m - of_bool (s AND 3 = 1);
         buckets = incr buckets (BUCKETS_INDEX4 c0 (s AND 3))
     in (c1, s, m, SA, buckets))"

definition libsais_count_and_gather_lms_suffixes_8u ::
    "string \<Rightarrow> mem \<Rightarrow> int \<Rightarrow> mem \<Rightarrow> int \<Rightarrow> int \<Rightarrow> int \<times> mem \<times> mem" where
  "libsais_count_and_gather_lms_suffixes_8u T SA n buckets omp_block_start omp_block_size =
     (let buckets = memset0 buckets 0 (4 * ALPHABET_SIZE);
          m = omp_block_start + omp_block_size - 1
      in if omp_block_size > 0
         then
           let c0 = byte_at T m;
               (j, c1) = skip_equal T n c0 (m + 1) (- 1);
               s = of_bool (c0 \<ge> c1);
               (i, st) = for_down4 (omp_block_start + 3) (\<lambda>i. lms_scan_step (byte_at T i) i)
                           (m - 1) (c0, s, m, SA, buckets);
               (i, st) = for_down omp_block_start (\<lambda>i. lms_scan_step (byte_at T i) i) i st;
               (c0, s, m, SA, buckets) =
                  lms_scan_step (if i \<ge> 0 then byte_at T i else - 1) i st
           in (omp_block_start + omp_block_size - 1 - m, SA, buckets)
         else (omp_block_start + omp_block_size - 1 - m, SA, buckets))"


subsection \<open>Arithmetic of the type bits\<close>

lemma and_3_eq_mod: "(x::int) AND 3 = x mod 4"
proof -
  have "x AND mask 2 = x mod 2 ^ 2" by (simp only: take_bit_eq_mask [symmetric] take_bit_eq_mod)
  then show ?thesis by (simp add: mask_eq_exp_minus_1)
qed

lemma and_1_eq_mod: "(x::int) AND 1 = x mod 2"
  by (simp add: and_one_eq)

lemma shl1_mod4: "shl1 s mod 4 = 2 * (s mod 2)"
proof -
  have "shl1 s mod 4 = (2 * s) mod 4"
    unfolding shl1_def by (rule mod_mod_cancel) simp
  then show ?thesis by presburger
qed

lemma and_3_shl1: "b = 0 \<or> b = 1 \<Longrightarrow> (shl1 s + b) AND 3 = 2 * (s AND 1) + b"
proof -
  assume b: "b = 0 \<or> b = 1"
  have "(shl1 s + b) mod 4 = (shl1 s mod 4 + b) mod 4" by presburger
  also have "\<dots> = (2 * (s mod 2) + b) mod 4" by (simp add: shl1_mod4)
  also have "\<dots> = 2 * (s mod 2) + b" using b by presburger
  finally show ?thesis by (simp add: and_3_eq_mod and_1_eq_mod)
qed

lemma and_1_shl1: "b = 0 \<or> b = 1 \<Longrightarrow> (shl1 s + b) AND 1 = b"
proof -
  assume b: "b = 0 \<or> b = 1"
  have "shl1 s mod 2 = 0"
  proof -
    have "shl1 s mod 2 = (2 * s) mod 2" unfolding shl1_def by (rule mod_mod_cancel) simp
    then show ?thesis by simp
  qed
  then have "(shl1 s + b) mod 2 = b" using b by presburger
  then show ?thesis by (simp add: and_1_eq_mod)
qed

section \<open>Strided loops and block moves\<close>

text \<open>
  \<^verbatim>\<open>for (; i <= hi; i += d)\<close> and \<^verbatim>\<open>for (; i >= lo; i -= d)\<close> with a stride \<open>d\<close>: the loops
  over the bucket tables, where \<open>i\<close> steps through the rows of a table.  A second loop
  variable of the source (\<^verbatim>\<open>j\<close>) is part of the state.
\<close>

function for_up_by :: "int \<Rightarrow> int \<Rightarrow> (int \<Rightarrow> 'a \<Rightarrow> 'a) \<Rightarrow> int \<Rightarrow> 'a \<Rightarrow> int \<times> 'a" where
  "for_up_by d hi f i s =
     (if i \<le> hi \<and> 0 < d then for_up_by d hi f (i + d) (f i s) else (i, s))"
  by pat_completeness auto
termination
  by (relation "measure (\<lambda>(d, hi, f, i, s). nat (hi - i + 1))") auto

function for_down_by :: "int \<Rightarrow> int \<Rightarrow> (int \<Rightarrow> 'a \<Rightarrow> 'a) \<Rightarrow> int \<Rightarrow> 'a \<Rightarrow> int \<times> 'a" where
  "for_down_by d lo f i s =
     (if i \<ge> lo \<and> 0 < d then for_down_by d lo f (i - d) (f i s) else (i, s))"
  by pat_completeness auto
termination
  by (relation "measure (\<lambda>(d, lo, f, i, s). nat (i - lo + 1))") auto

declare for_up_by.simps [simp del] for_down_by.simps [simp del]

text \<open>\<^verbatim>\<open>memmove(&M[dst], &M[src], l * sizeof(int))\<close>: the source cells are read before any
  cell is written.  \<^verbatim>\<open>memcpy\<close> is used by the source on blocks that do not overlap and is
  modelled by the same function.\<close>

definition memmove :: "mem \<Rightarrow> int \<Rightarrow> int \<Rightarrow> int \<Rightarrow> mem" where
  "memmove M dst src l =
     fold (\<lambda>(k, v) M'. wr M' (dst + int k) v)
          (map (\<lambda>k. (k, rd M (src + int k))) [0..<nat l]) M"

section \<open>The byte path\<close>

subsection \<open>LMS gathering after the recursion\<close>

definition lms_gather_step :: "int \<Rightarrow> int \<Rightarrow> int \<times> int \<times> int \<times> mem
    \<Rightarrow> int \<times> int \<times> int \<times> mem" where
  "lms_gather_step c1 i = (\<lambda>(c0, s, m, SA).
     let s = shl1 s + of_bool (c1 > c0 - (s AND 1));
         SA = wr SA m (i + 1);
         m = m - of_bool (s AND 3 = 1)
     in (c1, s, m, SA))"

definition libsais_gather_lms_suffixes_8u ::
    "string \<Rightarrow> mem \<Rightarrow> int \<Rightarrow> int \<Rightarrow> int \<Rightarrow> int \<Rightarrow> mem" where
  "libsais_gather_lms_suffixes_8u T SA n m omp_block_start omp_block_size =
     (if omp_block_size > 0
      then
        let c0 = byte_at T (omp_block_start + omp_block_size - 1);
            (j, c1) = skip_equal T n c0 (omp_block_start + omp_block_size) (- 1);
            s = of_bool (c0 \<ge> c1);
            (i, st) = for_down4 (omp_block_start + 3) (\<lambda>i. lms_gather_step (byte_at T i) i)
                        (omp_block_start + omp_block_size - 2) (c0, s, m, SA);
            (i, c0, s, m, SA) = for_down omp_block_start (\<lambda>i. lms_gather_step (byte_at T i) i) i st;
            c1 = (if i \<ge> 0 then byte_at T i else - 1)
        in wr SA m (i + 1)
      else SA)"

definition libsais_gather_lms_suffixes_8u_omp :: "string \<Rightarrow> mem \<Rightarrow> int \<Rightarrow> mem" where
  "libsais_gather_lms_suffixes_8u_omp T SA n = libsais_gather_lms_suffixes_8u T SA n (n - 1) 0 n"

subsection \<open>Bucket arithmetic\<close>

definition libsais_initialize_buckets_start_and_end_8u :: "mem \<Rightarrow> mem" where
  "libsais_initialize_buckets_start_and_end_8u buckets =
     (let bucket_start = 6 * ALPHABET_SIZE;
          bucket_end = 7 * ALPHABET_SIZE;
          (i, j, sum, buckets) =
            for_up_by (BUCKETS_INDEX4 1 0) (BUCKETS_INDEX4 UCHAR_MAX 0)
              (\<lambda>i (j, sum, buckets).
                 let buckets = wr buckets (bucket_start + j) sum;
                     sum = sum + rd buckets (i + BUCKETS_INDEX4 0 0) + rd buckets (i + BUCKETS_INDEX4 0 1)
                               + rd buckets (i + BUCKETS_INDEX4 0 2) + rd buckets (i + BUCKETS_INDEX4 0 3);
                     buckets = wr buckets (bucket_end + j) sum
                 in (j + 1, sum, buckets))
              (BUCKETS_INDEX4 0 0) (0, 0, buckets)
      in buckets)"

definition libsais_initialize_buckets_for_lms_suffixes_radix_sort_8u ::
    "string \<Rightarrow> mem \<Rightarrow> int \<Rightarrow> int \<times> mem" where
  "libsais_initialize_buckets_for_lms_suffixes_radix_sort_8u T buckets first_lms_suffix =
     (let (i, c0, s, buckets) =
            for_down 0
              (\<lambda>i (c0, s, buckets).
                 let c1 = c0; c0 = byte_at T i;
                     s = shl1 s + of_bool (c0 > c1 - (s AND 1));
                     buckets = decr buckets (BUCKETS_INDEX4 c1 (s AND 3))
                 in (c0, s, buckets))
              (first_lms_suffix - 1) (byte_at T first_lms_suffix, 0, buckets);
          buckets = decr buckets (BUCKETS_INDEX4 c0 (shl1 s AND 3));
          temp_bucket = 4 * ALPHABET_SIZE;
          (i, j, sum, buckets) =
            for_up_by (BUCKETS_INDEX4 1 0) (BUCKETS_INDEX4 UCHAR_MAX 0)
              (\<lambda>i (j, sum, buckets).
                 let buckets = wr buckets (temp_bucket + j + BUCKETS_INDEX2 0 1) sum;
                     sum = sum + rd buckets (i + BUCKETS_INDEX4 0 1) + rd buckets (i + BUCKETS_INDEX4 0 3);
                     buckets = wr buckets (temp_bucket + j) sum
                 in (j + BUCKETS_INDEX2 1 0, sum, buckets))
              (BUCKETS_INDEX4 0 0) (BUCKETS_INDEX2 0 0, 0, buckets)
      in (sum, buckets))"

definition libsais_initialize_buckets_for_partial_sorting_8u ::
    "string \<Rightarrow> mem \<Rightarrow> int \<Rightarrow> int \<Rightarrow> mem" where
  "libsais_initialize_buckets_for_partial_sorting_8u T buckets first_lms_suffix left_suffixes_count =
     (let temp_bucket = 4 * ALPHABET_SIZE;
          buckets = incr buckets (BUCKETS_INDEX4 (byte_at T first_lms_suffix) 1);
          (i, j, sum0, sum1, buckets) =
            for_up_by (BUCKETS_INDEX4 1 0) (BUCKETS_INDEX4 UCHAR_MAX 0)
              (\<lambda>i (j, sum0, sum1, buckets).
                 let buckets = wr buckets (temp_bucket + j + BUCKETS_INDEX2 0 0) sum0;
                     sum0 = sum0 + rd buckets (i + BUCKETS_INDEX4 0 0) + rd buckets (i + BUCKETS_INDEX4 0 2);
                     sum1 = sum1 + rd buckets (i + BUCKETS_INDEX4 0 1);
                     buckets = wr buckets (j + BUCKETS_INDEX2 0 0) sum0;
                     buckets = wr buckets (j + BUCKETS_INDEX2 0 1) sum1
                 in (j + BUCKETS_INDEX2 1 0, sum0, sum1, buckets))
              (BUCKETS_INDEX4 0 0) (BUCKETS_INDEX2 0 0, left_suffixes_count + 1, 0, buckets)
      in buckets)"

subsection \<open>Radix placement of the LMS suffixes\<close>

definition radix_sort_step_8u :: "string \<Rightarrow> int \<Rightarrow> int \<Rightarrow> mem \<times> mem \<Rightarrow> mem \<times> mem" where
  "radix_sort_step_8u T induction_bucket i = (\<lambda>(SA, buckets).
     let p = rd SA i;
         b = induction_bucket + BUCKETS_INDEX2 (byte_at T p) 0;
         buckets = decr buckets b
     in (wr SA (rd buckets b) p, buckets))"

definition libsais_radix_sort_lms_suffixes_8u ::
    "string \<Rightarrow> mem \<Rightarrow> mem \<Rightarrow> int \<Rightarrow> int \<Rightarrow> int \<Rightarrow> mem \<times> mem" where
  "libsais_radix_sort_lms_suffixes_8u T SA buckets induction_bucket omp_block_start omp_block_size =
     (let prefetch_distance = 32;
          (i, st) = for_down4 (omp_block_start + prefetch_distance + 3)
                      (radix_sort_step_8u T induction_bucket)
                      (omp_block_start + omp_block_size - 1) (SA, buckets);
          (i, st) = for_down omp_block_start (radix_sort_step_8u T induction_bucket) i st
      in st)"

definition libsais_radix_sort_lms_suffixes_8u_omp ::
    "string \<Rightarrow> mem \<Rightarrow> int \<Rightarrow> int \<Rightarrow> mem \<Rightarrow> mem \<times> mem" where
  "libsais_radix_sort_lms_suffixes_8u_omp T SA n m buckets =
     libsais_radix_sort_lms_suffixes_8u T SA buckets (4 * ALPHABET_SIZE) (n - m + 1) (m - 1)"

subsection \<open>Induced partial sorting\<close>

text \<open>
  \<^verbatim>\<open>(cond) << (INT_BIT - 1)\<close> puts the truth value of \<open>cond\<close> into the sign bit of a 32-bit
  \<^verbatim>\<open>int\<close>: the result is \<open>INT_MIN\<close> or 0.
\<close>

definition sign_bit_of :: "bool \<Rightarrow> int" where
  "sign_bit_of b = (if b then INT_MIN else 0)"

definition partial_sorting_step_left_to_right_8u ::
    "string \<Rightarrow> int \<Rightarrow> int \<times> mem \<times> mem \<Rightarrow> int \<times> mem \<times> mem" where
  "partial_sorting_step_left_to_right_8u T i = (\<lambda>(d, SA, buckets).
     let induction_bucket = 4 * ALPHABET_SIZE;
         distinct_names = 2 * ALPHABET_SIZE;
         p = rd SA i;
         d = d + of_bool (p < 0);
         p = p AND INT_MAX;
         v = BUCKETS_INDEX2 (byte_at T (p - 1)) (of_bool (byte_at T (p - 2) \<ge> byte_at T (p - 1)));
         SA = wr SA (rd buckets (induction_bucket + v))
                ((p - 1) OR sign_bit_of (rd buckets (distinct_names + v) \<noteq> d));
         buckets = incr buckets (induction_bucket + v);
         buckets = wr buckets (distinct_names + v) d
     in (d, SA, buckets))"

definition libsais_partial_sorting_scan_left_to_right_8u ::
    "string \<Rightarrow> mem \<Rightarrow> mem \<Rightarrow> int \<Rightarrow> int \<Rightarrow> int \<Rightarrow> int \<times> mem \<times> mem" where
  "libsais_partial_sorting_scan_left_to_right_8u T SA buckets d omp_block_start omp_block_size =
     (let prefetch_distance = 32;
          (i, st) = for_up2 (omp_block_start + omp_block_size - prefetch_distance - 1)
                      (partial_sorting_step_left_to_right_8u T) omp_block_start (d, SA, buckets);
          (i, st) = for_up (omp_block_start + omp_block_size)
                      (partial_sorting_step_left_to_right_8u T) i st
      in st)"

definition libsais_partial_sorting_scan_left_to_right_8u_omp ::
    "string \<Rightarrow> mem \<Rightarrow> int \<Rightarrow> mem \<Rightarrow> int \<Rightarrow> int \<Rightarrow> int \<times> mem \<times> mem" where
  "libsais_partial_sorting_scan_left_to_right_8u_omp T SA n buckets left_suffixes_count d =
     (let induction_bucket = 4 * ALPHABET_SIZE;
          distinct_names = 2 * ALPHABET_SIZE;
          v = BUCKETS_INDEX2 (byte_at T (n - 1)) (of_bool (byte_at T (n - 2) \<ge> byte_at T (n - 1)));
          SA = wr SA (rd buckets (induction_bucket + v)) ((n - 1) OR INT_MIN);
          buckets = incr buckets (induction_bucket + v);
          d = d + 1;
          buckets = wr buckets (distinct_names + v) d
      in libsais_partial_sorting_scan_left_to_right_8u T SA buckets d 0 left_suffixes_count)"

definition shift_markers_step :: "int \<Rightarrow> int \<times> mem \<Rightarrow> int \<times> mem" where
  "shift_markers_step i = (\<lambda>(s, SA).
     let p = rd SA i;
         q = (p AND INT_MIN) XOR s;
         s = s XOR q
     in (s, wr SA i (p XOR q)))"

definition libsais_partial_sorting_shift_markers_8u_omp :: "mem \<Rightarrow> int \<Rightarrow> mem \<Rightarrow> mem" where
  "libsais_partial_sorting_shift_markers_8u_omp SA n buckets =
     (let temp_bucket = 4 * ALPHABET_SIZE;
          (c, SA) =
            for_down_by (BUCKETS_INDEX2 1 0) (BUCKETS_INDEX2 1 0)
              (\<lambda>c SA.
                 let (i, st) = for_down4 (rd buckets (c - BUCKETS_INDEX2 1 0) + 3) shift_markers_step
                                 (rd buckets (temp_bucket + c) - 1) (INT_MIN, SA);
                     (i, s, SA) = for_down (rd buckets (c - BUCKETS_INDEX2 1 0)) shift_markers_step i st
                 in SA)
              (BUCKETS_INDEX2 UCHAR_MAX 0) SA
      in SA)"

definition partial_sorting_step_right_to_left_8u ::
    "string \<Rightarrow> int \<Rightarrow> int \<times> mem \<times> mem \<Rightarrow> int \<times> mem \<times> mem" where
  "partial_sorting_step_right_to_left_8u T i = (\<lambda>(d, SA, buckets).
     let induction_bucket = 0 * ALPHABET_SIZE;
         distinct_names = 2 * ALPHABET_SIZE;
         p = rd SA i;
         d = d + of_bool (p < 0);
         p = p AND INT_MAX;
         v = BUCKETS_INDEX2 (byte_at T (p - 1)) (of_bool (byte_at T (p - 2) > byte_at T (p - 1)));
         buckets = decr buckets (induction_bucket + v);
         SA = wr SA (rd buckets (induction_bucket + v))
                ((p - 1) OR sign_bit_of (rd buckets (distinct_names + v) \<noteq> d));
         buckets = wr buckets (distinct_names + v) d
     in (d, SA, buckets))"

definition libsais_partial_sorting_scan_right_to_left_8u ::
    "string \<Rightarrow> mem \<Rightarrow> mem \<Rightarrow> int \<Rightarrow> int \<Rightarrow> int \<Rightarrow> int \<times> mem \<times> mem" where
  "libsais_partial_sorting_scan_right_to_left_8u T SA buckets d omp_block_start omp_block_size =
     (let prefetch_distance = 32;
          (i, st) = for_down2 (omp_block_start + prefetch_distance + 1)
                      (partial_sorting_step_right_to_left_8u T)
                      (omp_block_start + omp_block_size - 1) (d, SA, buckets);
          (i, st) = for_down omp_block_start (partial_sorting_step_right_to_left_8u T) i st
      in st)"

definition libsais_partial_sorting_scan_right_to_left_8u_omp ::
    "string \<Rightarrow> mem \<Rightarrow> int \<Rightarrow> mem \<Rightarrow> int \<Rightarrow> int \<Rightarrow> int \<Rightarrow> mem \<times> mem" where
  "libsais_partial_sorting_scan_right_to_left_8u_omp T SA n buckets first_lms_suffix
       left_suffixes_count d =
     (let scan_start = left_suffixes_count + 1;
          scan_end = n - first_lms_suffix;
          (d, SA, buckets) = libsais_partial_sorting_scan_right_to_left_8u T SA buckets d
                               scan_start (scan_end - scan_start)
      in (SA, buckets))"

definition libsais_induce_partial_order_8u_omp ::
    "string \<Rightarrow> mem \<Rightarrow> int \<Rightarrow> mem \<Rightarrow> int \<Rightarrow> int \<Rightarrow> mem \<times> mem" where
  "libsais_induce_partial_order_8u_omp T SA n buckets first_lms_suffix left_suffixes_count =
     (let buckets = memset0 buckets (2 * ALPHABET_SIZE) (2 * ALPHABET_SIZE);
          (d, SA, buckets) = libsais_partial_sorting_scan_left_to_right_8u_omp T SA n buckets
                               left_suffixes_count 0;
          SA = libsais_partial_sorting_shift_markers_8u_omp SA n buckets
      in libsais_partial_sorting_scan_right_to_left_8u_omp T SA n buckets first_lms_suffix
           left_suffixes_count d)"

subsection \<open>Naming of the LMS substrings\<close>

definition renumber_step_8u :: "int \<Rightarrow> int \<Rightarrow> int \<times> mem \<Rightarrow> int \<times> mem" where
  "renumber_step_8u m i = (\<lambda>(name, SA).
     let p = rd SA i;
         SA = wr SA (m + (p AND INT_MAX) div 2) (name OR INT_MIN);
         name = name + of_bool (p < 0)
     in (name, SA))"

definition libsais_renumber_lms_suffixes_8u ::
    "mem \<Rightarrow> int \<Rightarrow> int \<Rightarrow> int \<Rightarrow> int \<Rightarrow> int \<times> mem" where
  "libsais_renumber_lms_suffixes_8u SA m name omp_block_start omp_block_size =
     (let prefetch_distance = 32;
          (i, st) = for_up4 (omp_block_start + omp_block_size - prefetch_distance - 3)
                      (renumber_step_8u m) omp_block_start (name, SA);
          (i, st) = for_up (omp_block_start + omp_block_size) (renumber_step_8u m) i st
      in st)"

definition gather_marked_step_8u :: "int \<Rightarrow> int \<times> mem \<Rightarrow> int \<times> mem" where
  "gather_marked_step_8u i = (\<lambda>(l, SA).
     let s = rd SA i;
         SA = wr SA l (s AND INT_MAX);
         l = l - of_bool (s < 0)
     in (l, SA))"

definition libsais_gather_marked_suffixes_8u ::
    "mem \<Rightarrow> int \<Rightarrow> int \<Rightarrow> int \<Rightarrow> int \<Rightarrow> int \<times> mem" where
  "libsais_gather_marked_suffixes_8u SA m l omp_block_start omp_block_size =
     (let l = l - 1;
          (i, st) = for_down4 (m + omp_block_start + 3) gather_marked_step_8u
                      (m + omp_block_start + omp_block_size - 1) (l, SA);
          (i, l, SA) = for_down (m + omp_block_start) gather_marked_step_8u i st;
          l = l + 1
      in (l, SA))"

definition libsais_renumber_lms_suffixes_8u_omp :: "mem \<Rightarrow> int \<Rightarrow> int \<times> mem" where
  "libsais_renumber_lms_suffixes_8u_omp SA m = libsais_renumber_lms_suffixes_8u SA m 0 0 m"

definition libsais_gather_marked_lms_suffixes_8u_omp :: "mem \<Rightarrow> int \<Rightarrow> int \<Rightarrow> int \<Rightarrow> mem" where
  "libsais_gather_marked_lms_suffixes_8u_omp SA n m fs =
     snd (libsais_gather_marked_suffixes_8u SA m (n + fs) 0 (n div 2))"

definition libsais_renumber_and_gather_lms_suffixes_8u_omp ::
    "mem \<Rightarrow> int \<Rightarrow> int \<Rightarrow> int \<Rightarrow> int \<times> mem" where
  "libsais_renumber_and_gather_lms_suffixes_8u_omp SA n m fs =
     (let SA = memset0 SA m (n div 2);
          (name, SA) = libsais_renumber_lms_suffixes_8u_omp SA m
      in if name < m
         then (name, libsais_gather_marked_lms_suffixes_8u_omp SA n m fs)
         else (name, snd (for_up m (\<lambda>i SA. wr SA i (rd SA i AND INT_MAX)) 0 SA)))"

subsection \<open>Reconstruction and placement of the sorted LMS suffixes\<close>

definition libsais_reconstruct_lms_suffixes :: "mem \<Rightarrow> int \<Rightarrow> int \<Rightarrow> int \<Rightarrow> int \<Rightarrow> mem" where
  "libsais_reconstruct_lms_suffixes SA n m omp_block_start omp_block_size =
     (let prefetch_distance = 32;
          SAnm = n - m;
          step = (\<lambda>i SA. wr SA i (rd SA (SAnm + rd SA i)));
          (i, SA) = for_up4 (omp_block_start + omp_block_size - prefetch_distance - 3) step
                      omp_block_start SA;
          (i, SA) = for_up (omp_block_start + omp_block_size) step i SA
      in SA)"

definition libsais_reconstruct_lms_suffixes_omp :: "mem \<Rightarrow> int \<Rightarrow> int \<Rightarrow> mem" where
  "libsais_reconstruct_lms_suffixes_omp SA n m = libsais_reconstruct_lms_suffixes SA n m 0 m"

definition libsais_place_lms_suffixes_interval_8u :: "mem \<Rightarrow> int \<Rightarrow> int \<Rightarrow> mem \<Rightarrow> mem" where
  "libsais_place_lms_suffixes_interval_8u SA n m buckets =
     (let bucket_end = 7 * ALPHABET_SIZE;
          (c, j, m, SA) =
            for_down 0
              (\<lambda>c (j, m, SA).
                 let l = rd buckets (BUCKETS_INDEX2 c 1 + BUCKETS_INDEX2 1 0)
                           - rd buckets (BUCKETS_INDEX2 c 1)
                 in if l > 0
                    then
                      let i = rd buckets (bucket_end + c);
                          SA = (if j - i > 0 then memset0 SA i (j - i) else SA);
                          j = i - l;
                          m = m - l
                      in (j, m, memmove SA j m l)
                    else (j, m, SA))
              (UCHAR_MAX - 1) (n, m, SA)
      in memset0 SA 0 j)"

subsection \<open>Final induced sorting\<close>

definition final_bwt_step_left_to_right_8u ::
    "string \<Rightarrow> int \<Rightarrow> int \<Rightarrow> mem \<times> mem \<Rightarrow> mem \<times> mem" where
  "final_bwt_step_left_to_right_8u T induction_bucket i = (\<lambda>(SA, buckets).
     let p = rd SA i;
         SA = wr SA i (p AND INT_MAX)
     in if p > 0
        then
          let p = p - 1;
              SA = wr SA i (byte_at T p OR INT_MIN);
              b = induction_bucket + byte_at T p;
              SA = wr SA (rd buckets b)
                     (p OR sign_bit_of (byte_at T (p - of_bool (p > 0)) < byte_at T p))
          in (SA, incr buckets b)
        else (SA, buckets))"

definition libsais_final_bwt_scan_left_to_right_8u ::
    "string \<Rightarrow> mem \<Rightarrow> mem \<Rightarrow> int \<Rightarrow> int \<Rightarrow> int \<Rightarrow> mem \<times> mem" where
  "libsais_final_bwt_scan_left_to_right_8u T SA buckets induction_bucket omp_block_start
       omp_block_size =
     (let prefetch_distance = 32;
          (i, st) = for_up2 (omp_block_start + omp_block_size - prefetch_distance - 1)
                      (final_bwt_step_left_to_right_8u T induction_bucket) omp_block_start
                      (SA, buckets);
          (i, st) = for_up (omp_block_start + omp_block_size)
                      (final_bwt_step_left_to_right_8u T induction_bucket) i st
      in st)"

definition final_sorting_step_left_to_right_8u ::
    "string \<Rightarrow> int \<Rightarrow> int \<Rightarrow> mem \<times> mem \<Rightarrow> mem \<times> mem" where
  "final_sorting_step_left_to_right_8u T induction_bucket i = (\<lambda>(SA, buckets).
     let p = rd SA i;
         SA = wr SA i (p XOR INT_MIN)
     in if p > 0
        then
          let p = p - 1;
              b = induction_bucket + byte_at T p;
              SA = wr SA (rd buckets b)
                     (p OR sign_bit_of (byte_at T (p - of_bool (p > 0)) < byte_at T p))
          in (SA, incr buckets b)
        else (SA, buckets))"

definition libsais_final_sorting_scan_left_to_right_8u ::
    "string \<Rightarrow> mem \<Rightarrow> mem \<Rightarrow> int \<Rightarrow> int \<Rightarrow> int \<Rightarrow> mem \<times> mem" where
  "libsais_final_sorting_scan_left_to_right_8u T SA buckets induction_bucket omp_block_start
       omp_block_size =
     (let prefetch_distance = 32;
          (i, st) = for_up2 (omp_block_start + omp_block_size - prefetch_distance - 1)
                      (final_sorting_step_left_to_right_8u T induction_bucket) omp_block_start
                      (SA, buckets);
          (i, st) = for_up (omp_block_start + omp_block_size)
                      (final_sorting_step_left_to_right_8u T induction_bucket) i st
      in st)"

definition libsais_final_bwt_scan_left_to_right_8u_omp ::
    "string \<Rightarrow> mem \<Rightarrow> int \<Rightarrow> mem \<Rightarrow> int \<Rightarrow> mem \<times> mem" where
  "libsais_final_bwt_scan_left_to_right_8u_omp T SA n buckets induction_bucket =
     (let b = induction_bucket + byte_at T (n - 1);
          SA = wr SA (rd buckets b)
                 ((n - 1) OR sign_bit_of (byte_at T (n - 2) < byte_at T (n - 1)));
          buckets = incr buckets b
      in libsais_final_bwt_scan_left_to_right_8u T SA buckets induction_bucket 0 n)"

definition libsais_final_sorting_scan_left_to_right_8u_omp ::
    "string \<Rightarrow> mem \<Rightarrow> int \<Rightarrow> mem \<Rightarrow> int \<Rightarrow> mem \<times> mem" where
  "libsais_final_sorting_scan_left_to_right_8u_omp T SA n buckets induction_bucket =
     (let b = induction_bucket + byte_at T (n - 1);
          SA = wr SA (rd buckets b)
                 ((n - 1) OR sign_bit_of (byte_at T (n - 2) < byte_at T (n - 1)));
          buckets = incr buckets b
      in libsais_final_sorting_scan_left_to_right_8u T SA buckets induction_bucket 0 n)"

definition final_bwt_step_right_to_left_8u ::
    "string \<Rightarrow> int \<Rightarrow> int \<Rightarrow> int \<times> mem \<times> mem \<Rightarrow> int \<times> mem \<times> mem" where
  "final_bwt_step_right_to_left_8u T induction_bucket i = (\<lambda>(index, SA, buckets).
     let p = rd SA i;
         index = (if p = 0 then i else index);
         SA = wr SA i (p AND INT_MAX)
     in if p > 0
        then
          let p = p - 1;
              c0 = byte_at T (p - of_bool (p > 0));
              c1 = byte_at T p;
              SA = wr SA i c1;
              t = c0 OR INT_MIN;
              buckets = decr buckets (induction_bucket + c1);
              SA = wr SA (rd buckets (induction_bucket + c1)) (if c0 \<le> c1 then p else t)
          in (index, SA, buckets)
        else (index, SA, buckets))"

definition libsais_final_bwt_scan_right_to_left_8u ::
    "string \<Rightarrow> mem \<Rightarrow> mem \<Rightarrow> int \<Rightarrow> int \<Rightarrow> int \<Rightarrow> int \<times> mem \<times> mem" where
  "libsais_final_bwt_scan_right_to_left_8u T SA buckets induction_bucket omp_block_start
       omp_block_size =
     (let prefetch_distance = 32;
          (i, st) = for_down2 (omp_block_start + prefetch_distance + 1)
                      (final_bwt_step_right_to_left_8u T induction_bucket)
                      (omp_block_start + omp_block_size - 1) (- 1, SA, buckets);
          (i, st) = for_down omp_block_start
                      (final_bwt_step_right_to_left_8u T induction_bucket) i st
      in st)"

definition final_sorting_step_right_to_left_8u ::
    "string \<Rightarrow> int \<Rightarrow> int \<Rightarrow> mem \<times> mem \<Rightarrow> mem \<times> mem" where
  "final_sorting_step_right_to_left_8u T induction_bucket i = (\<lambda>(SA, buckets).
     let p = rd SA i;
         SA = wr SA i (p AND INT_MAX)
     in if p > 0
        then
          let p = p - 1;
              b = induction_bucket + byte_at T p;
              buckets = decr buckets b;
              SA = wr SA (rd buckets b)
                     (p OR sign_bit_of (byte_at T (p - of_bool (p > 0)) > byte_at T p))
          in (SA, buckets)
        else (SA, buckets))"

definition libsais_final_sorting_scan_right_to_left_8u ::
    "string \<Rightarrow> mem \<Rightarrow> mem \<Rightarrow> int \<Rightarrow> int \<Rightarrow> int \<Rightarrow> mem \<times> mem" where
  "libsais_final_sorting_scan_right_to_left_8u T SA buckets induction_bucket omp_block_start
       omp_block_size =
     (let prefetch_distance = 32;
          (i, st) = for_down2 (omp_block_start + prefetch_distance + 1)
                      (final_sorting_step_right_to_left_8u T induction_bucket)
                      (omp_block_start + omp_block_size - 1) (SA, buckets);
          (i, st) = for_down omp_block_start
                      (final_sorting_step_right_to_left_8u T induction_bucket) i st
      in st)"

definition libsais_final_bwt_scan_right_to_left_8u_omp ::
    "string \<Rightarrow> mem \<Rightarrow> int \<Rightarrow> mem \<Rightarrow> int \<Rightarrow> int \<times> mem \<times> mem" where
  "libsais_final_bwt_scan_right_to_left_8u_omp T SA n buckets induction_bucket =
     libsais_final_bwt_scan_right_to_left_8u T SA buckets induction_bucket 0 n"

definition libsais_final_sorting_scan_right_to_left_8u_omp ::
    "string \<Rightarrow> mem \<Rightarrow> int \<Rightarrow> mem \<Rightarrow> int \<Rightarrow> mem \<times> mem" where
  "libsais_final_sorting_scan_right_to_left_8u_omp T SA n buckets induction_bucket =
     libsais_final_sorting_scan_right_to_left_8u T SA buckets induction_bucket 0 n"

text \<open>\<^verbatim>\<open>libsais_clear_lms_suffixes_omp\<close>; the bucket tables \<^verbatim>\<open>bucket_start\<close> and
  \<^verbatim>\<open>bucket_end\<close> are given by their offsets in \<open>buckets\<close>.\<close>

definition libsais_clear_lms_suffixes_omp ::
    "mem \<Rightarrow> int \<Rightarrow> int \<Rightarrow> mem \<Rightarrow> int \<Rightarrow> int \<Rightarrow> mem" where
  "libsais_clear_lms_suffixes_omp SA n k buckets bucket_start bucket_end =
     snd (for_up k
            (\<lambda>c SA. if rd buckets (bucket_end + c) > rd buckets (bucket_start + c)
                     then memset0 SA (rd buckets (bucket_start + c))
                            (rd buckets (bucket_end + c) - rd buckets (bucket_start + c))
                     else SA)
            0 SA)"

text \<open>
  \<^verbatim>\<open>libsais_induce_final_order_8u_omp\<close> with \<^verbatim>\<open>threads = 1\<close>, the only value the entry
  points \<^verbatim>\<open>libsais\<close> and \<^verbatim>\<open>libsais_bwt\<close> pass: the clearing step of the non-BWT branch, which
  the source runs for \<^verbatim>\<open>threads > 1 && n >= 65536\<close> only, does not run.
\<close>

definition libsais_induce_final_order_8u_omp ::
    "string \<Rightarrow> mem \<Rightarrow> int \<Rightarrow> bool \<Rightarrow> mem \<Rightarrow> int \<times> mem \<times> mem" where
  "libsais_induce_final_order_8u_omp T SA n bwt buckets =
     (if bwt
      then
        let (SA, buckets) = libsais_final_bwt_scan_left_to_right_8u_omp T SA n buckets
                              (6 * ALPHABET_SIZE);
            SA = libsais_clear_lms_suffixes_omp SA n ALPHABET_SIZE buckets
                   (6 * ALPHABET_SIZE) (7 * ALPHABET_SIZE)
        in libsais_final_bwt_scan_right_to_left_8u_omp T SA n buckets (7 * ALPHABET_SIZE)
      else
        let (SA, buckets) = libsais_final_sorting_scan_left_to_right_8u_omp T SA n buckets
                              (6 * ALPHABET_SIZE);
            (SA, buckets) = libsais_final_sorting_scan_right_to_left_8u_omp T SA n buckets
                              (7 * ALPHABET_SIZE)
        in (0, SA, buckets))"

section \<open>The integer path\<close>

text \<open>
  The recursion works on a reduced text that is itself stored in the suffix array: the
  driver calls itself with \<^verbatim>\<open>T = SA + n + fs - m + f\<close>.  The bucket tables of the integer
  path live in the slack at the end of \<^verbatim>\<open>SA\<close> (or in a separately allocated block).  So
  the functions of the integer path work on one store \<open>M\<close>, addressed relative to
  \<^verbatim>\<open>SA\<close>: \<^verbatim>\<open>SA[i]\<close> is \<open>rd M i\<close>, and the pointers \<^verbatim>\<open>T\<close> and \<^verbatim>\<open>buckets\<close> are the offsets
  of their first cells, so that \<^verbatim>\<open>T[i]\<close> is \<open>rd M (T + i)\<close>.  The integer text is mutable
  (its sign bits are used as marks).
\<close>

definition SUFFIX_GROUP_MARKER :: int where "SUFFIX_GROUP_MARKER = 1073741824"

text \<open>The value of a 32-bit \<^verbatim>\<open>int\<close> computation that wraps around, and the value of a
  cast to \<^verbatim>\<open>unsigned int\<close>.\<close>

definition wrap32 :: "int \<Rightarrow> int" where
  "wrap32 x = (x + 2147483648) mod 4294967296 - 2147483648"

definition unsigned32 :: "int \<Rightarrow> int" where
  "unsigned32 x = x mod 4294967296"

subsection \<open>Type scanners\<close>

definition gather_step_32s :: "int \<Rightarrow> int \<Rightarrow> int \<times> int \<times> int \<times> mem \<Rightarrow> int \<times> int \<times> int \<times> mem" where
  "gather_step_32s T i = (\<lambda>(c0, s, m, M).
     let c1 = rd M (T + i);
         s = shl1 s + of_bool (c1 > c0 - (s AND 1));
         M = wr M m (i + 1);
         m = m - of_bool (s AND 3 = 1)
     in (c1, s, m, M))"

definition libsais_gather_lms_suffixes_32s :: "mem \<Rightarrow> int \<Rightarrow> int \<Rightarrow> int \<times> mem" where
  "libsais_gather_lms_suffixes_32s M T n =
     (let (i, st) = for_down4 3 (gather_step_32s T) (n - 2) (rd M (T + n - 1), 1, n - 1, M);
          (i, c0, s, m, M) = for_down 0 (gather_step_32s T) i st
      in (n - 1 - m, M))"

definition gather_compacted_step_32s ::
    "int \<Rightarrow> int \<Rightarrow> int \<times> int \<times> int \<times> mem \<Rightarrow> int \<times> int \<times> int \<times> mem" where
  "gather_compacted_step_32s T i = (\<lambda>(c0, s, m, M).
     let c1 = rd M (T + i);
         s = shl1 s + of_bool (c1 > c0 - (s AND 1));
         M = wr M m (i + 1);
         m = m - of_bool (s AND 3 = of_bool (c0 \<ge> 0))
     in (c1, s, m, M))"

definition libsais_gather_compacted_lms_suffixes_32s :: "mem \<Rightarrow> int \<Rightarrow> int \<Rightarrow> int \<times> mem" where
  "libsais_gather_compacted_lms_suffixes_32s M T n =
     (let (i, st) = for_down4 3 (gather_compacted_step_32s T) (n - 2)
                      (rd M (T + n - 1), 1, n - 1, M);
          (i, c0, s, m, M) = for_down 0 (gather_compacted_step_32s T) i st
      in (n - 1 - m, M))"

definition count_step_32s_2k :: "int \<Rightarrow> int \<Rightarrow> int \<Rightarrow> int \<times> int \<times> mem \<Rightarrow> int \<times> int \<times> mem" where
  "count_step_32s_2k T buckets i = (\<lambda>(c0, s, M).
     let c1 = rd M (T + i);
         s = shl1 s + of_bool (c1 > c0 - (s AND 1));
         M = incr M (buckets + BUCKETS_INDEX2 c0 (of_bool (s AND 3 = 1)))
     in (c1, s, M))"

definition libsais_count_lms_suffixes_32s_2k :: "mem \<Rightarrow> int \<Rightarrow> int \<Rightarrow> int \<Rightarrow> int \<Rightarrow> mem" where
  "libsais_count_lms_suffixes_32s_2k M T n k buckets =
     (let prefetch_distance = 32;
          M = memset0 M buckets (2 * k);
          (i, st) = for_down4 (prefetch_distance + 3) (count_step_32s_2k T buckets) (n - 2)
                      (rd M (T + n - 1), 1, M);
          (i, c0, s, M) = for_down 0 (count_step_32s_2k T buckets) i st
      in incr M (buckets + BUCKETS_INDEX2 c0 0))"

definition count_and_gather_step_32s_4k ::
    "int \<Rightarrow> int \<Rightarrow> int \<Rightarrow> int \<times> int \<times> int \<times> mem \<Rightarrow> int \<times> int \<times> int \<times> mem" where
  "count_and_gather_step_32s_4k T buckets i = (\<lambda>(c0, s, m, M).
     let c1 = rd M (T + i);
         s = shl1 s + of_bool (c1 > c0 - (s AND 1));
         M = wr M m (i + 1);
         m = m - of_bool (s AND 3 = 1);
         M = incr M (buckets + BUCKETS_INDEX4 c0 (s AND 3))
     in (c1, s, m, M))"

definition libsais_count_and_gather_lms_suffixes_32s_4k ::
    "mem \<Rightarrow> int \<Rightarrow> int \<Rightarrow> int \<Rightarrow> int \<Rightarrow> int \<times> mem" where
  "libsais_count_and_gather_lms_suffixes_32s_4k M T n k buckets =
     (let prefetch_distance = 32;
          M = memset0 M buckets (4 * k);
          (i, st) = for_down4 (prefetch_distance + 3) (count_and_gather_step_32s_4k T buckets)
                      (n - 2) (rd M (T + n - 1), 1, n - 1, M);
          (i, c0, s, m, M) = for_down 0 (count_and_gather_step_32s_4k T buckets) i st;
          M = incr M (buckets + BUCKETS_INDEX4 c0 (shl1 s AND 3))
      in (n - 1 - m, M))"

definition count_and_gather_step_32s_2k ::
    "int \<Rightarrow> int \<Rightarrow> int \<Rightarrow> int \<times> int \<times> int \<times> mem \<Rightarrow> int \<times> int \<times> int \<times> mem" where
  "count_and_gather_step_32s_2k T buckets i = (\<lambda>(c0, s, m, M).
     let c1 = rd M (T + i);
         s = shl1 s + of_bool (c1 > c0 - (s AND 1));
         M = wr M m (i + 1);
         m = m - of_bool (s AND 3 = 1);
         M = incr M (buckets + BUCKETS_INDEX2 c0 (of_bool (s AND 3 = 1)))
     in (c1, s, m, M))"

definition libsais_count_and_gather_lms_suffixes_32s_2k ::
    "mem \<Rightarrow> int \<Rightarrow> int \<Rightarrow> int \<Rightarrow> int \<Rightarrow> int \<times> mem" where
  "libsais_count_and_gather_lms_suffixes_32s_2k M T n k buckets =
     (let prefetch_distance = 32;
          M = memset0 M buckets (2 * k);
          (i, st) = for_down4 (prefetch_distance + 3) (count_and_gather_step_32s_2k T buckets)
                      (n - 2) (rd M (T + n - 1), 1, n - 1, M);
          (i, c0, s, m, M) = for_down 0 (count_and_gather_step_32s_2k T buckets) i st;
          M = incr M (buckets + BUCKETS_INDEX2 c0 0)
      in (n - 1 - m, M))"

definition count_and_gather_compacted_step_32s_2k ::
    "int \<Rightarrow> int \<Rightarrow> int \<Rightarrow> int \<times> int \<times> int \<times> mem \<Rightarrow> int \<times> int \<times> int \<times> mem" where
  "count_and_gather_compacted_step_32s_2k T buckets i = (\<lambda>(c0, s, m, M).
     let c1 = rd M (T + i);
         s = shl1 s + of_bool (c1 > c0 - (s AND 1));
         M = wr M m (i + 1);
         m = m - of_bool (s AND 3 = of_bool (c0 \<ge> 0));
         c0 = c0 AND INT_MAX;
         M = incr M (buckets + BUCKETS_INDEX2 c0 (of_bool (s AND 3 = 1)))
     in (c1, s, m, M))"

definition libsais_count_and_gather_compacted_lms_suffixes_32s_2k ::
    "mem \<Rightarrow> int \<Rightarrow> int \<Rightarrow> int \<Rightarrow> int \<Rightarrow> int \<times> mem" where
  "libsais_count_and_gather_compacted_lms_suffixes_32s_2k M T n k buckets =
     (let prefetch_distance = 32;
          M = memset0 M buckets (2 * k);
          (i, st) = for_down4 (prefetch_distance + 3)
                      (count_and_gather_compacted_step_32s_2k T buckets)
                      (n - 2) (rd M (T + n - 1), 1, n - 1, M);
          (i, c0, s, m, M) = for_down 0 (count_and_gather_compacted_step_32s_2k T buckets) i st;
          c0 = c0 AND INT_MAX;
          M = incr M (buckets + BUCKETS_INDEX2 c0 0)
      in (n - 1 - m, M))"

text \<open>The \<^verbatim>\<open>_omp\<close> forms of the scanners run the serial scanner when there is one
  thread.\<close>

definition libsais_count_and_gather_lms_suffixes_32s_4k_omp ::
    "mem \<Rightarrow> int \<Rightarrow> int \<Rightarrow> int \<Rightarrow> int \<Rightarrow> int \<times> mem" where
  "libsais_count_and_gather_lms_suffixes_32s_4k_omp =
     libsais_count_and_gather_lms_suffixes_32s_4k"

definition libsais_count_and_gather_lms_suffixes_32s_2k_omp ::
    "mem \<Rightarrow> int \<Rightarrow> int \<Rightarrow> int \<Rightarrow> int \<Rightarrow> int \<times> mem" where
  "libsais_count_and_gather_lms_suffixes_32s_2k_omp =
     libsais_count_and_gather_lms_suffixes_32s_2k"

definition libsais_count_and_gather_compacted_lms_suffixes_32s_2k_omp ::
    "mem \<Rightarrow> int \<Rightarrow> int \<Rightarrow> int \<Rightarrow> int \<Rightarrow> int \<times> mem" where
  "libsais_count_and_gather_compacted_lms_suffixes_32s_2k_omp =
     libsais_count_and_gather_compacted_lms_suffixes_32s_2k"

definition libsais_count_suffixes_32s :: "mem \<Rightarrow> int \<Rightarrow> int \<Rightarrow> int \<Rightarrow> int \<Rightarrow> mem" where
  "libsais_count_suffixes_32s M T n k buckets =
     (let M = memset0 M buckets k;
          step = (\<lambda>i M. incr M (buckets + rd M (T + i)));
          (i, M) = for_up8 (n - 7) step 0 M;
          (i, M) = for_up n step i M
      in M)"

subsection \<open>Bucket arithmetic\<close>

definition libsais_initialize_buckets_start_and_end_32s_6k :: "mem \<Rightarrow> int \<Rightarrow> int \<Rightarrow> mem" where
  "libsais_initialize_buckets_start_and_end_32s_6k M k buckets =
     (let bucket_start = buckets + 4 * k;
          bucket_end = buckets + 5 * k;
          (i, j, sum, M) =
            for_up_by (BUCKETS_INDEX4 1 0) (BUCKETS_INDEX4 (k - 1) 0)
              (\<lambda>i (j, sum, M).
                 let M = wr M (bucket_start + j) sum;
                     sum = sum + rd M (buckets + i + BUCKETS_INDEX4 0 0)
                               + rd M (buckets + i + BUCKETS_INDEX4 0 1)
                               + rd M (buckets + i + BUCKETS_INDEX4 0 2)
                               + rd M (buckets + i + BUCKETS_INDEX4 0 3);
                     M = wr M (bucket_end + j) sum
                 in (j + 1, sum, M))
              (BUCKETS_INDEX4 0 0) (0, 0, M)
      in M)"

definition libsais_initialize_buckets_start_and_end_32s_4k :: "mem \<Rightarrow> int \<Rightarrow> int \<Rightarrow> mem" where
  "libsais_initialize_buckets_start_and_end_32s_4k M k buckets =
     (let bucket_start = buckets + 2 * k;
          bucket_end = buckets + 3 * k;
          (i, j, sum, M) =
            for_up_by (BUCKETS_INDEX2 1 0) (BUCKETS_INDEX2 (k - 1) 0)
              (\<lambda>i (j, sum, M).
                 let M = wr M (bucket_start + j) sum;
                     sum = sum + rd M (buckets + i + BUCKETS_INDEX2 0 0)
                               + rd M (buckets + i + BUCKETS_INDEX2 0 1);
                     M = wr M (bucket_end + j) sum
                 in (j + 1, sum, M))
              (BUCKETS_INDEX2 0 0) (0, 0, M)
      in M)"

definition libsais_initialize_buckets_end_32s_2k :: "mem \<Rightarrow> int \<Rightarrow> int \<Rightarrow> mem" where
  "libsais_initialize_buckets_end_32s_2k M k buckets =
     (let (i, sum0, M) =
            for_up_by (BUCKETS_INDEX2 1 0) (BUCKETS_INDEX2 (k - 1) 0)
              (\<lambda>i (sum0, M).
                 let sum0 = sum0 + rd M (buckets + i + BUCKETS_INDEX2 0 0)
                                 + rd M (buckets + i + BUCKETS_INDEX2 0 1)
                 in (sum0, wr M (buckets + i + BUCKETS_INDEX2 0 0) sum0))
              (BUCKETS_INDEX2 0 0) (0, M)
      in M)"

definition libsais_initialize_buckets_start_and_end_32s_2k :: "mem \<Rightarrow> int \<Rightarrow> int \<Rightarrow> mem" where
  "libsais_initialize_buckets_start_and_end_32s_2k M k buckets =
     (let (i, j, M) =
            for_up_by (BUCKETS_INDEX2 1 0) (BUCKETS_INDEX2 (k - 1) 0)
              (\<lambda>i (j, M). (j + 1, wr M (buckets + j) (rd M (buckets + i))))
              (BUCKETS_INDEX2 0 0) (0, M);
          M = wr M (buckets + k) 0
      in memmove M (buckets + k + 1) buckets (k - 1))"

definition libsais_initialize_buckets_start_32s_1k :: "mem \<Rightarrow> int \<Rightarrow> int \<Rightarrow> mem" where
  "libsais_initialize_buckets_start_32s_1k M k buckets =
     (let (i, sum, M) =
            for_up_by 1 (k - 1)
              (\<lambda>i (sum, M). let tmp = rd M (buckets + i) in (sum + tmp, wr M (buckets + i) sum))
              0 (0, M)
      in M)"

definition libsais_initialize_buckets_end_32s_1k :: "mem \<Rightarrow> int \<Rightarrow> int \<Rightarrow> mem" where
  "libsais_initialize_buckets_end_32s_1k M k buckets =
     (let (i, sum, M) =
            for_up_by 1 (k - 1)
              (\<lambda>i (sum, M). let sum = sum + rd M (buckets + i) in (sum, wr M (buckets + i) sum))
              0 (0, M)
      in M)"

definition libsais_initialize_buckets_for_lms_suffixes_radix_sort_32s_2k ::
    "mem \<Rightarrow> int \<Rightarrow> int \<Rightarrow> int \<Rightarrow> int \<Rightarrow> mem" where
  "libsais_initialize_buckets_for_lms_suffixes_radix_sort_32s_2k M T k buckets first_lms_suffix =
     (let M = incr M (buckets + BUCKETS_INDEX2 (rd M (T + first_lms_suffix)) 0);
          M = decr M (buckets + BUCKETS_INDEX2 (rd M (T + first_lms_suffix)) 1);
          (i, sum0, sum1, M) =
            for_up_by (BUCKETS_INDEX2 1 0) (BUCKETS_INDEX2 (k - 1) 0)
              (\<lambda>i (sum0, sum1, M).
                 let sum0 = sum0 + rd M (buckets + i + BUCKETS_INDEX2 0 0)
                                 + rd M (buckets + i + BUCKETS_INDEX2 0 1);
                     sum1 = sum1 + rd M (buckets + i + BUCKETS_INDEX2 0 1);
                     M = wr M (buckets + i + BUCKETS_INDEX2 0 0) sum0;
                     M = wr M (buckets + i + BUCKETS_INDEX2 0 1) sum1
                 in (sum0, sum1, M))
              (BUCKETS_INDEX2 0 0) (0, 0, M)
      in M)"

definition libsais_initialize_buckets_for_lms_suffixes_radix_sort_32s_6k ::
    "mem \<Rightarrow> int \<Rightarrow> int \<Rightarrow> int \<Rightarrow> int \<Rightarrow> int \<times> mem" where
  "libsais_initialize_buckets_for_lms_suffixes_radix_sort_32s_6k M T k buckets first_lms_suffix =
     (let (i, c0, s, M) =
            for_down 0
              (\<lambda>i (c0, s, M).
                 let c1 = c0; c0 = rd M (T + i);
                     s = shl1 s + of_bool (c0 > c1 - (s AND 1));
                     M = decr M (buckets + BUCKETS_INDEX4 c1 (s AND 3))
                 in (c0, s, M))
              (first_lms_suffix - 1) (rd M (T + first_lms_suffix), 0, M);
          M = decr M (buckets + BUCKETS_INDEX4 c0 (shl1 s AND 3));
          temp_bucket = buckets + 4 * k;
          (i, j, sum, M) =
            for_up_by (BUCKETS_INDEX4 1 0) (BUCKETS_INDEX4 (k - 1) 0)
              (\<lambda>i (j, sum, M).
                 let sum = sum + rd M (buckets + i + BUCKETS_INDEX4 0 1)
                               + rd M (buckets + i + BUCKETS_INDEX4 0 3);
                     M = wr M (temp_bucket + j) sum
                 in (j + 1, sum, M))
              (BUCKETS_INDEX4 0 0) (0, 0, M)
      in (sum, M))"

definition libsais_initialize_buckets_for_radix_and_partial_sorting_32s_4k ::
    "mem \<Rightarrow> int \<Rightarrow> int \<Rightarrow> int \<Rightarrow> int \<Rightarrow> mem" where
  "libsais_initialize_buckets_for_radix_and_partial_sorting_32s_4k M T k buckets first_lms_suffix =
     (let bucket_start = buckets + 2 * k;
          bucket_end = buckets + 3 * k;
          M = incr M (buckets + BUCKETS_INDEX2 (rd M (T + first_lms_suffix)) 0);
          M = decr M (buckets + BUCKETS_INDEX2 (rd M (T + first_lms_suffix)) 1);
          (i, j, sum0, sum1, M) =
            for_up_by (BUCKETS_INDEX2 1 0) (BUCKETS_INDEX2 (k - 1) 0)
              (\<lambda>i (j, sum0, sum1, M).
                 let M = wr M (bucket_start + j) sum1;
                     sum0 = sum0 + rd M (buckets + i + BUCKETS_INDEX2 0 1);
                     sum1 = sum1 + rd M (buckets + i + BUCKETS_INDEX2 0 0)
                                 + rd M (buckets + i + BUCKETS_INDEX2 0 1);
                     M = wr M (buckets + i + BUCKETS_INDEX2 0 1) sum0;
                     M = wr M (bucket_end + j) sum1
                 in (j + 1, sum0, sum1, M))
              (BUCKETS_INDEX2 0 0) (0, 0, 0, M)
      in M)"

definition partial_sorting_bucket_row_32s_6k ::
    "int \<Rightarrow> int \<Rightarrow> int \<Rightarrow> int \<times> int \<times> int \<times> int \<times> mem \<Rightarrow> int \<times> int \<times> int \<times> int \<times> mem" where
  "partial_sorting_bucket_row_32s_6k buckets temp_bucket i = (\<lambda>(j, sum0, sum1, sum2, M).
     let SS = rd M (buckets + i + BUCKETS_INDEX4 0 0);
         LS = rd M (buckets + i + BUCKETS_INDEX4 0 1);
         SL = rd M (buckets + i + BUCKETS_INDEX4 0 2);
         LL = rd M (buckets + i + BUCKETS_INDEX4 0 3);
         M = wr M (buckets + i + BUCKETS_INDEX4 0 0) sum0;
         M = wr M (buckets + i + BUCKETS_INDEX4 0 1) sum2;
         M = wr M (buckets + i + BUCKETS_INDEX4 0 2) 0;
         M = wr M (buckets + i + BUCKETS_INDEX4 0 3) 0;
         sum0 = sum0 + (SS + SL); sum1 = sum1 + LS; sum2 = sum2 + (LS + LL);
         M = wr M (temp_bucket + j + BUCKETS_INDEX2 0 0) sum0;
         M = wr M (temp_bucket + j + BUCKETS_INDEX2 0 1) sum1
     in (j + BUCKETS_INDEX2 1 0, sum0, sum1, sum2, M))"

definition libsais_initialize_buckets_for_partial_sorting_32s_6k ::
    "mem \<Rightarrow> int \<Rightarrow> int \<Rightarrow> int \<Rightarrow> int \<Rightarrow> int \<Rightarrow> mem" where
  "libsais_initialize_buckets_for_partial_sorting_32s_6k M T k buckets first_lms_suffix
       left_suffixes_count =
     (let temp_bucket = buckets + 4 * k;
          first_lms_suffix = rd M (T + first_lms_suffix);
          (i, j, sum0, sum1, sum2, M) =
            for_up_by (BUCKETS_INDEX4 1 0) (BUCKETS_INDEX4 (first_lms_suffix - 1) 0)
              (partial_sorting_bucket_row_32s_6k buckets temp_bucket)
              (BUCKETS_INDEX4 0 0) (BUCKETS_INDEX2 0 0, left_suffixes_count + 1, 0, 0, M);
          sum1 = sum1 + 1;
          (i, j, sum0, sum1, sum2, M) =
            for_up_by (BUCKETS_INDEX4 1 0) (BUCKETS_INDEX4 (k - 1) 0)
              (partial_sorting_bucket_row_32s_6k buckets temp_bucket)
              i (j, sum0, sum1, sum2, M)
      in M)"

subsection \<open>Radix placement of the LMS suffixes\<close>

text \<open>The loops of the radix sorts are written \<^verbatim>\<open>for (...; i > j; ...)\<close>: they run while
  \<open>i \<ge> j + 1\<close>.\<close>

definition radix_sort_step_32s_6k :: "int \<Rightarrow> int \<Rightarrow> int \<Rightarrow> mem \<Rightarrow> mem" where
  "radix_sort_step_32s_6k T induction_bucket i M =
     (let p = rd M i;
          b = induction_bucket + rd M (T + p);
          M = decr M b
      in wr M (rd M b) p)"

definition libsais_radix_sort_lms_suffixes_32s_6k ::
    "mem \<Rightarrow> int \<Rightarrow> int \<Rightarrow> int \<Rightarrow> int \<Rightarrow> mem" where
  "libsais_radix_sort_lms_suffixes_32s_6k M T n m induction_bucket =
     (let prefetch_distance = 32;
          (i, M) = for_down4 (n - m + 2 * prefetch_distance + 3 + 1)
                     (radix_sort_step_32s_6k T induction_bucket) (n - 1) M;
          (i, M) = for_down (n - m + 1) (radix_sort_step_32s_6k T induction_bucket) i M
      in M)"

definition radix_sort_step_32s_2k :: "int \<Rightarrow> int \<Rightarrow> int \<Rightarrow> mem \<Rightarrow> mem" where
  "radix_sort_step_32s_2k T induction_bucket i M =
     (let p = rd M i;
          b = induction_bucket + BUCKETS_INDEX2 (rd M (T + p)) 0;
          M = decr M b
      in wr M (rd M b) p)"

definition libsais_radix_sort_lms_suffixes_32s_2k ::
    "mem \<Rightarrow> int \<Rightarrow> int \<Rightarrow> int \<Rightarrow> int \<Rightarrow> mem" where
  "libsais_radix_sort_lms_suffixes_32s_2k M T n m induction_bucket =
     (let prefetch_distance = 32;
          (i, M) = for_down4 (n - m + 2 * prefetch_distance + 3 + 1)
                     (radix_sort_step_32s_2k T induction_bucket) (n - 1) M;
          (i, M) = for_down (n - m + 1) (radix_sort_step_32s_2k T induction_bucket) i M
      in M)"

definition radix_sort_step_32s_1k ::
    "int \<Rightarrow> int \<Rightarrow> int \<Rightarrow> int \<times> int \<times> int \<times> int \<times> mem \<Rightarrow> int \<times> int \<times> int \<times> int \<times> mem" where
  "radix_sort_step_32s_1k T buckets i = (\<lambda>(c0, c2, s, m, M).
     let c1 = rd M (T + i);
         s = shl1 s + of_bool (c1 > c0 - (s AND 1))
     in if s AND 3 = 1
        then
          let c2 = c0;
              M = decr M (buckets + c2);
              M = wr M (rd M (buckets + c2)) (i + 1)
          in (c1, c2, s, m + 1, M)
        else (c1, c2, s, m, M))"

definition libsais_radix_sort_lms_suffixes_32s_1k :: "mem \<Rightarrow> int \<Rightarrow> int \<Rightarrow> int \<Rightarrow> int \<times> mem" where
  "libsais_radix_sort_lms_suffixes_32s_1k M T n buckets =
     (let prefetch_distance = 32;
          (i, st) = for_down4 (prefetch_distance + 3) (radix_sort_step_32s_1k T buckets) (n - 2)
                      (rd M (T + n - 1), 0, 1, 0, M);
          (i, c0, c2, s, m, M) = for_down 0 (radix_sort_step_32s_1k T buckets) i st;
          M = (if m > 1 then wr M (rd M (buckets + c2)) 0 else M)
      in (m, M))"

definition libsais_radix_sort_set_markers_32s_6k :: "mem \<Rightarrow> int \<Rightarrow> int \<Rightarrow> int \<Rightarrow> mem" where
  "libsais_radix_sort_set_markers_32s_6k M induction_bucket omp_block_start omp_block_size =
     (let prefetch_distance = 32;
          step = (\<lambda>i M. let a = rd M (induction_bucket + i) in wr M a (rd M a OR INT_MIN));
          (i, M) = for_up4 (omp_block_start + omp_block_size - prefetch_distance - 3) step
                     omp_block_start M;
          (i, M) = for_up (omp_block_start + omp_block_size) step i M
      in M)"

definition libsais_radix_sort_set_markers_32s_4k :: "mem \<Rightarrow> int \<Rightarrow> int \<Rightarrow> int \<Rightarrow> mem" where
  "libsais_radix_sort_set_markers_32s_4k M induction_bucket omp_block_start omp_block_size =
     (let prefetch_distance = 32;
          step = (\<lambda>i M. let a = rd M (induction_bucket + BUCKETS_INDEX2 i 0)
                         in wr M a (rd M a OR SUFFIX_GROUP_MARKER));
          (i, M) = for_up4 (omp_block_start + omp_block_size - prefetch_distance - 3) step
                     omp_block_start M;
          (i, M) = for_up (omp_block_start + omp_block_size) step i M
      in M)"

definition libsais_radix_sort_set_markers_32s_6k_omp :: "mem \<Rightarrow> int \<Rightarrow> int \<Rightarrow> mem" where
  "libsais_radix_sort_set_markers_32s_6k_omp M k induction_bucket =
     libsais_radix_sort_set_markers_32s_6k M induction_bucket 0 (k - 1)"

definition libsais_radix_sort_set_markers_32s_4k_omp :: "mem \<Rightarrow> int \<Rightarrow> int \<Rightarrow> mem" where
  "libsais_radix_sort_set_markers_32s_4k_omp M k induction_bucket =
     libsais_radix_sort_set_markers_32s_4k M induction_bucket 0 (k - 1)"

subsection \<open>Induced partial sorting\<close>

definition partial_sorting_step_left_to_right_32s_6k ::
    "int \<Rightarrow> int \<Rightarrow> int \<Rightarrow> int \<times> mem \<Rightarrow> int \<times> mem" where
  "partial_sorting_step_left_to_right_32s_6k T buckets i = (\<lambda>(d, M).
     let p = rd M i;
         d = d + of_bool (p < 0);
         p = p AND INT_MAX;
         v = BUCKETS_INDEX4 (rd M (T + p - 1)) (of_bool (rd M (T + p - 2) \<ge> rd M (T + p - 1)));
         x = (p - 1) OR sign_bit_of (rd M (buckets + 2 + v) \<noteq> d);
         a = rd M (buckets + v);
         M = incr M (buckets + v);
         M = wr M a x;
         M = wr M (buckets + 2 + v) d
     in (d, M))"

definition libsais_partial_sorting_scan_left_to_right_32s_6k ::
    "mem \<Rightarrow> int \<Rightarrow> int \<Rightarrow> int \<Rightarrow> int \<Rightarrow> int \<Rightarrow> int \<times> mem" where
  "libsais_partial_sorting_scan_left_to_right_32s_6k M T n buckets left_suffixes_count d =
     (let prefetch_distance = 32;
          v = BUCKETS_INDEX4 (rd M (T + n - 1)) (of_bool (rd M (T + n - 2) \<ge> rd M (T + n - 1)));
          a = rd M (buckets + v);
          M = incr M (buckets + v);
          M = wr M a ((n - 1) OR INT_MIN);
          v = BUCKETS_INDEX4 (rd M (T + n - 1)) (of_bool (rd M (T + n - 2) \<ge> rd M (T + n - 1)));
          d = d + 1;
          M = wr M (buckets + 2 + v) d;
          (i, st) = for_up2 (left_suffixes_count - 2 * prefetch_distance - 1)
                      (partial_sorting_step_left_to_right_32s_6k T buckets) 0 (d, M);
          (i, st) = for_up left_suffixes_count
                      (partial_sorting_step_left_to_right_32s_6k T buckets) i st
      in st)"

definition partial_sorting_step_left_to_right_32s_4k ::
    "int \<Rightarrow> int \<Rightarrow> int \<Rightarrow> int \<Rightarrow> int \<times> mem \<Rightarrow> int \<times> mem" where
  "partial_sorting_step_left_to_right_32s_4k T k buckets i = (\<lambda>(d, M).
     let induction_bucket = buckets + 2 * k;
         distinct_names = buckets + 0 * k;
         p = rd M i;
         M = wr M i (p AND INT_MAX)
     in if p > 0
        then
          let M = wr M i 0;
              d = d + p div SUFFIX_GROUP_MARKER;
              p = p AND (NOT SUFFIX_GROUP_MARKER);
              v = BUCKETS_INDEX2 (rd M (T + p - 1)) (of_bool (rd M (T + p - 2) < rd M (T + p - 1)));
              x = (p - 1) OR sign_bit_of (rd M (T + p - 2) < rd M (T + p - 1))
                    OR (if rd M (distinct_names + v) \<noteq> d then SUFFIX_GROUP_MARKER else 0);
              b = induction_bucket + rd M (T + p - 1);
              a = rd M b;
              M = incr M b;
              M = wr M a x;
              M = wr M (distinct_names + v) d
          in (d, M)
        else (d, M))"

definition libsais_partial_sorting_scan_left_to_right_32s_4k ::
    "mem \<Rightarrow> int \<Rightarrow> int \<Rightarrow> int \<Rightarrow> int \<Rightarrow> int \<Rightarrow> int \<times> mem" where
  "libsais_partial_sorting_scan_left_to_right_32s_4k M T n k buckets d =
     (let prefetch_distance = 32;
          induction_bucket = buckets + 2 * k;
          distinct_names = buckets + 0 * k;
          x = (n - 1) OR sign_bit_of (rd M (T + n - 2) < rd M (T + n - 1)) OR SUFFIX_GROUP_MARKER;
          b = induction_bucket + rd M (T + n - 1);
          a = rd M b;
          M = incr M b;
          M = wr M a x;
          v = BUCKETS_INDEX2 (rd M (T + n - 1)) (of_bool (rd M (T + n - 2) < rd M (T + n - 1)));
          d = d + 1;
          M = wr M (distinct_names + v) d;
          (i, st) = for_up2 (n - 2 * prefetch_distance - 1)
                      (partial_sorting_step_left_to_right_32s_4k T k buckets) 0 (d, M);
          (i, st) = for_up n (partial_sorting_step_left_to_right_32s_4k T k buckets) i st
      in st)"

definition partial_sorting_step_left_to_right_32s_1k :: "int \<Rightarrow> int \<Rightarrow> int \<Rightarrow> mem \<Rightarrow> mem" where
  "partial_sorting_step_left_to_right_32s_1k T induction_bucket i M =
     (let p = rd M i;
          M = wr M i (p AND INT_MAX)
      in if p > 0
         then
           let M = wr M i 0;
               x = (p - 1) OR sign_bit_of (rd M (T + p - 2) < rd M (T + p - 1));
               b = induction_bucket + rd M (T + p - 1);
               a = rd M b;
               M = incr M b
           in wr M a x
         else M)"

definition libsais_partial_sorting_scan_left_to_right_32s_1k ::
    "mem \<Rightarrow> int \<Rightarrow> int \<Rightarrow> int \<Rightarrow> mem" where
  "libsais_partial_sorting_scan_left_to_right_32s_1k M T n induction_bucket =
     (let prefetch_distance = 32;
          x = (n - 1) OR sign_bit_of (rd M (T + n - 2) < rd M (T + n - 1));
          b = induction_bucket + rd M (T + n - 1);
          a = rd M b;
          M = incr M b;
          M = wr M a x;
          (i, M) = for_up2 (n - 2 * prefetch_distance - 1)
                     (partial_sorting_step_left_to_right_32s_1k T induction_bucket) 0 M;
          (i, M) = for_up n (partial_sorting_step_left_to_right_32s_1k T induction_bucket) i M
      in M)"

definition libsais_partial_sorting_shift_markers_32s_6k_omp :: "mem \<Rightarrow> int \<Rightarrow> int \<Rightarrow> mem" where
  "libsais_partial_sorting_shift_markers_32s_6k_omp M k buckets =
     (let temp_bucket = buckets + 4 * k;
          step = (\<lambda>i (s, M). let p = rd M i; q = (p AND INT_MIN) XOR s; s = s XOR q
                              in (s, wr M i (p XOR q)));
          (c, M) =
            for_down 1
              (\<lambda>c M.
                 let lo = rd M (temp_bucket + BUCKETS_INDEX2 (c - 1) 0);
                     (i, st) = for_down4 (lo + 3) step (rd M (buckets + BUCKETS_INDEX4 c 0) - 1)
                                 (INT_MIN, M);
                     (i, s, M) = for_down lo step i st
                 in M)
              (k - 1) M
      in M)"

definition libsais_partial_sorting_shift_markers_32s_4k :: "mem \<Rightarrow> int \<Rightarrow> mem" where
  "libsais_partial_sorting_shift_markers_32s_4k M n =
     (let step = (\<lambda>i (s, M).
                    let p = rd M i;
                        q = ((p AND SUFFIX_GROUP_MARKER) XOR s)
                              AND (if p > 0 then SUFFIX_GROUP_MARKER else 0);
                        s = s XOR q
                    in (s, wr M i (p XOR q)));
          (i, st) = for_down4 3 step (n - 1) (SUFFIX_GROUP_MARKER, M);
          (i, s, M) = for_down 0 step i st
      in M)"

definition libsais_partial_sorting_shift_buckets_32s_6k :: "mem \<Rightarrow> int \<Rightarrow> int \<Rightarrow> mem" where
  "libsais_partial_sorting_shift_buckets_32s_6k M k buckets =
     (let temp_bucket = buckets + 4 * k;
          (i, M) =
            for_up_by (BUCKETS_INDEX2 1 0) (BUCKETS_INDEX2 (k - 1) 0)
              (\<lambda>i M.
                 let M = wr M (buckets + 2 * i + BUCKETS_INDEX4 0 0)
                           (rd M (temp_bucket + i + BUCKETS_INDEX2 0 0))
                 in wr M (buckets + 2 * i + BUCKETS_INDEX4 0 1)
                      (rd M (temp_bucket + i + BUCKETS_INDEX2 0 1)))
              (BUCKETS_INDEX2 0 0) M
      in M)"

definition partial_sorting_step_right_to_left_32s_6k ::
    "int \<Rightarrow> int \<Rightarrow> int \<Rightarrow> int \<times> mem \<Rightarrow> int \<times> mem" where
  "partial_sorting_step_right_to_left_32s_6k T buckets i = (\<lambda>(d, M).
     let p = rd M i;
         d = d + of_bool (p < 0);
         p = p AND INT_MAX;
         v = BUCKETS_INDEX4 (rd M (T + p - 1)) (of_bool (rd M (T + p - 2) > rd M (T + p - 1)));
         x = (p - 1) OR sign_bit_of (rd M (buckets + 2 + v) \<noteq> d);
         M = decr M (buckets + v);
         M = wr M (rd M (buckets + v)) x;
         M = wr M (buckets + 2 + v) d
     in (d, M))"

definition libsais_partial_sorting_scan_right_to_left_32s_6k ::
    "mem \<Rightarrow> int \<Rightarrow> int \<Rightarrow> int \<Rightarrow> int \<Rightarrow> int \<Rightarrow> int \<Rightarrow> int \<times> mem" where
  "libsais_partial_sorting_scan_right_to_left_32s_6k M T n buckets first_lms_suffix
       left_suffixes_count d =
     (let prefetch_distance = 32;
          (i, st) = for_down2 (left_suffixes_count + 1 + 2 * prefetch_distance + 1)
                      (partial_sorting_step_right_to_left_32s_6k T buckets)
                      (n - first_lms_suffix - 1) (d, M);
          (i, st) = for_down (left_suffixes_count + 1)
                      (partial_sorting_step_right_to_left_32s_6k T buckets) i st
      in st)"

definition partial_sorting_step_right_to_left_32s_4k ::
    "int \<Rightarrow> int \<Rightarrow> int \<Rightarrow> int \<Rightarrow> int \<times> mem \<Rightarrow> int \<times> mem" where
  "partial_sorting_step_right_to_left_32s_4k T k buckets i = (\<lambda>(d, M).
     let induction_bucket = buckets + 3 * k;
         distinct_names = buckets + 0 * k;
         p = rd M i
     in if p > 0
        then
          let M = wr M i 0;
              d = d + p div SUFFIX_GROUP_MARKER;
              p = p AND (NOT SUFFIX_GROUP_MARKER);
              v = BUCKETS_INDEX2 (rd M (T + p - 1)) (of_bool (rd M (T + p - 2) > rd M (T + p - 1)));
              x = (p - 1) OR sign_bit_of (rd M (T + p - 2) > rd M (T + p - 1))
                    OR (if rd M (distinct_names + v) \<noteq> d then SUFFIX_GROUP_MARKER else 0);
              b = induction_bucket + rd M (T + p - 1);
              M = decr M b;
              M = wr M (rd M b) x;
              M = wr M (distinct_names + v) d
          in (d, M)
        else (d, M))"

definition libsais_partial_sorting_scan_right_to_left_32s_4k ::
    "mem \<Rightarrow> int \<Rightarrow> int \<Rightarrow> int \<Rightarrow> int \<Rightarrow> int \<Rightarrow> int \<times> mem" where
  "libsais_partial_sorting_scan_right_to_left_32s_4k M T n k buckets d =
     (let prefetch_distance = 32;
          (i, st) = for_down2 (2 * prefetch_distance + 1)
                      (partial_sorting_step_right_to_left_32s_4k T k buckets) (n - 1) (d, M);
          (i, st) = for_down 0 (partial_sorting_step_right_to_left_32s_4k T k buckets) i st
      in st)"

definition partial_sorting_step_right_to_left_32s_1k :: "int \<Rightarrow> int \<Rightarrow> int \<Rightarrow> mem \<Rightarrow> mem" where
  "partial_sorting_step_right_to_left_32s_1k T induction_bucket i M =
     (let p = rd M i
      in if p > 0
         then
           let M = wr M i 0;
               x = (p - 1) OR sign_bit_of (rd M (T + p - 2) > rd M (T + p - 1));
               b = induction_bucket + rd M (T + p - 1);
               M = decr M b
           in wr M (rd M b) x
         else M)"

definition libsais_partial_sorting_scan_right_to_left_32s_1k ::
    "mem \<Rightarrow> int \<Rightarrow> int \<Rightarrow> int \<Rightarrow> mem" where
  "libsais_partial_sorting_scan_right_to_left_32s_1k M T n induction_bucket =
     (let prefetch_distance = 32;
          (i, M) = for_down2 (2 * prefetch_distance + 1)
                     (partial_sorting_step_right_to_left_32s_1k T induction_bucket) (n - 1) M;
          (i, M) = for_down 0 (partial_sorting_step_right_to_left_32s_1k T induction_bucket) i M
      in M)"

definition libsais_partial_sorting_gather_lms_suffixes_32s_4k :: "mem \<Rightarrow> int \<Rightarrow> mem" where
  "libsais_partial_sorting_gather_lms_suffixes_32s_4k M n =
     (let step = (\<lambda>i (l, M).
                    let s = rd M i;
                        M = wr M l (wrap32 (s - SUFFIX_GROUP_MARKER) AND (NOT SUFFIX_GROUP_MARKER))
                    in (l + of_bool (s < 0), M));
          (i, st) = for_up4 (n - 3) step 0 (0, M);
          (i, l, M) = for_up n step i st
      in M)"

definition libsais_partial_sorting_gather_lms_suffixes_32s_1k :: "mem \<Rightarrow> int \<Rightarrow> mem" where
  "libsais_partial_sorting_gather_lms_suffixes_32s_1k M n =
     (let step = (\<lambda>i (l, M).
                    let s = rd M i;
                        M = wr M l (s AND INT_MAX)
                    in (l + of_bool (s < 0), M));
          (i, st) = for_up4 (n - 3) step 0 (0, M);
          (i, l, M) = for_up n step i st
      in M)"

definition libsais_induce_partial_order_32s_6k ::
    "mem \<Rightarrow> int \<Rightarrow> int \<Rightarrow> int \<Rightarrow> int \<Rightarrow> int \<Rightarrow> int \<Rightarrow> mem" where
  "libsais_induce_partial_order_32s_6k M T n k buckets first_lms_suffix left_suffixes_count =
     (let (d, M) = libsais_partial_sorting_scan_left_to_right_32s_6k M T n buckets
                     left_suffixes_count 0;
          M = libsais_partial_sorting_shift_markers_32s_6k_omp M k buckets;
          M = libsais_partial_sorting_shift_buckets_32s_6k M k buckets;
          (d, M) = libsais_partial_sorting_scan_right_to_left_32s_6k M T n buckets first_lms_suffix
                     left_suffixes_count d
      in M)"

definition libsais_induce_partial_order_32s_4k ::
    "mem \<Rightarrow> int \<Rightarrow> int \<Rightarrow> int \<Rightarrow> int \<Rightarrow> mem" where
  "libsais_induce_partial_order_32s_4k M T n k buckets =
     (let M = memset0 M buckets (2 * k);
          (d, M) = libsais_partial_sorting_scan_left_to_right_32s_4k M T n k buckets 0;
          M = libsais_partial_sorting_shift_markers_32s_4k M n;
          (d, M) = libsais_partial_sorting_scan_right_to_left_32s_4k M T n k buckets d
      in libsais_partial_sorting_gather_lms_suffixes_32s_4k M n)"

definition libsais_induce_partial_order_32s_2k ::
    "mem \<Rightarrow> int \<Rightarrow> int \<Rightarrow> int \<Rightarrow> int \<Rightarrow> mem" where
  "libsais_induce_partial_order_32s_2k M T n k buckets =
     (let M = libsais_partial_sorting_scan_left_to_right_32s_1k M T n (buckets + 1 * k);
          M = libsais_partial_sorting_scan_right_to_left_32s_1k M T n (buckets + 0 * k)
      in libsais_partial_sorting_gather_lms_suffixes_32s_1k M n)"

definition libsais_induce_partial_order_32s_1k ::
    "mem \<Rightarrow> int \<Rightarrow> int \<Rightarrow> int \<Rightarrow> int \<Rightarrow> mem" where
  "libsais_induce_partial_order_32s_1k M T n k buckets =
     (let M = libsais_count_suffixes_32s M T n k buckets;
          M = libsais_initialize_buckets_start_32s_1k M k buckets;
          M = libsais_partial_sorting_scan_left_to_right_32s_1k M T n buckets;
          M = libsais_count_suffixes_32s M T n k buckets;
          M = libsais_initialize_buckets_end_32s_1k M k buckets;
          M = libsais_partial_sorting_scan_right_to_left_32s_1k M T n buckets
      in libsais_partial_sorting_gather_lms_suffixes_32s_1k M n)"

subsection \<open>Naming of the LMS substrings\<close>

definition renumber_distinct_step_32s_4k :: "int \<Rightarrow> int \<Rightarrow> int \<times> int \<times> mem \<Rightarrow> int \<times> int \<times> mem" where
  "renumber_distinct_step_32s_4k m i = (\<lambda>(p3, name, M).
     let p2 = p3;
         p3 = rd M i;
         M = wr M i (p3 AND INT_MAX);
         M = wr M (m + (p3 AND INT_MAX) div 2) (name OR (p3 AND p2 AND INT_MIN));
         name = name + of_bool (p3 < 0)
     in (p3, name, M))"

definition libsais_renumber_distinct_lms_suffixes_32s_4k ::
    "mem \<Rightarrow> int \<Rightarrow> int \<Rightarrow> int \<Rightarrow> int \<Rightarrow> int \<times> mem" where
  "libsais_renumber_distinct_lms_suffixes_32s_4k M m name omp_block_start omp_block_size =
     (let prefetch_distance = 32;
          (i, st) = for_up4 (omp_block_start + omp_block_size - prefetch_distance - 3)
                      (renumber_distinct_step_32s_4k m) omp_block_start (0, name, M);
          (i, p3, name, M) = for_up (omp_block_start + omp_block_size)
                               (renumber_distinct_step_32s_4k m) i st
      in (name, M))"

definition mark_distinct_step_32s :: "int \<Rightarrow> int \<times> mem \<Rightarrow> int \<times> mem" where
  "mark_distinct_step_32s i = (\<lambda>(p3, M).
     let p2 = p3;
         p3 = rd M i;
         M = wr M i (p3 AND (p2 OR INT_MAX));
         p3 = (if p3 = 0 then p2 else p3)
     in (p3, M))"

definition libsais_mark_distinct_lms_suffixes_32s_4k :: "mem \<Rightarrow> int \<Rightarrow> int \<Rightarrow> int \<Rightarrow> mem" where
  "libsais_mark_distinct_lms_suffixes_32s_4k M m omp_block_start omp_block_size =
     (let (i, st) = for_up4 (m + omp_block_start + omp_block_size - 3) mark_distinct_step_32s
                      (m + omp_block_start) (0, M);
          (i, p3, M) = for_up (m + omp_block_start + omp_block_size) mark_distinct_step_32s i st
      in M)"

definition libsais_renumber_distinct_lms_suffixes_32s_4k_omp :: "mem \<Rightarrow> int \<Rightarrow> int \<times> mem" where
  "libsais_renumber_distinct_lms_suffixes_32s_4k_omp M m =
     (let (name, M) = libsais_renumber_distinct_lms_suffixes_32s_4k M m 1 0 m
      in (name - 1, M))"

definition libsais_mark_distinct_lms_suffixes_32s_4k_omp :: "mem \<Rightarrow> int \<Rightarrow> int \<Rightarrow> mem" where
  "libsais_mark_distinct_lms_suffixes_32s_4k_omp M n m =
     libsais_mark_distinct_lms_suffixes_32s_4k M m 0 (n div 2)"

definition libsais_renumber_and_mark_distinct_lms_suffixes_32s_4k_omp ::
    "mem \<Rightarrow> int \<Rightarrow> int \<Rightarrow> int \<times> mem" where
  "libsais_renumber_and_mark_distinct_lms_suffixes_32s_4k_omp M n m =
     (let M = memset0 M m (n div 2);
          (name, M) = libsais_renumber_distinct_lms_suffixes_32s_4k_omp M m
      in if name < m then (name, libsais_mark_distinct_lms_suffixes_32s_4k_omp M n m)
         else (name, M))"

text \<open>
  \<^verbatim>\<open>do { if (T[p + l] != T[q + l]) break; } while (++l < len);\<close>: the comparison of two
  LMS substrings of the same length in the 1k namer.  The result is the value of \<^verbatim>\<open>l\<close> when
  the loop is left.
\<close>

function substring_mismatch :: "mem \<Rightarrow> int \<Rightarrow> int \<Rightarrow> int \<Rightarrow> int \<Rightarrow> int \<Rightarrow> int" where
  "substring_mismatch M T p q len l =
     (if rd M (T + p + l) \<noteq> rd M (T + q + l) then l
      else if l + 1 < len then substring_mismatch M T p q len (l + 1)
      else l + 1)"
  by pat_completeness auto
termination
  by (relation "measure (\<lambda>(M, T, p, q, len, l). nat (len - l))") auto

declare substring_mismatch.simps [simp del]

definition lms_length_step_32s_1k :: "int \<Rightarrow> int \<Rightarrow> mem \<Rightarrow> mem" where
  "lms_length_step_32s_1k m i M =
     wr M (m + unsigned32 (rd M i) div 2) (rd M (i + 1) - rd M i + 1 + INT_MIN)"

definition lms_name_step_32s_1k ::
    "int \<Rightarrow> int \<Rightarrow> int \<Rightarrow> int \<times> int \<times> int \<times> int \<times> mem \<Rightarrow> int \<times> int \<times> int \<times> int \<times> mem" where
  "lms_name_step_32s_1k T m i = (\<lambda>(p, plen, pdiff, name, M).
     let q = rd M i;
         qlen = rd M (m + q div 2);
         qdiff = (if plen = qlen
                  then (substring_mismatch M T p q qlen 0 - qlen) AND INT_MIN
                  else INT_MIN);
         M = wr M (m + p div 2) (name OR (pdiff AND qdiff));
         name = name + of_bool (qdiff < 0)
     in (q, qlen, qdiff, name, M))"

definition libsais_renumber_and_mark_distinct_lms_suffixes_32s_1k ::
    "mem \<Rightarrow> int \<Rightarrow> int \<Rightarrow> int \<Rightarrow> int \<times> mem" where
  "libsais_renumber_and_mark_distinct_lms_suffixes_32s_1k M T n m =
     (let prefetch_distance = 32;
          SAm = m;
          (_, M) = libsais_gather_lms_suffixes_32s M T n;
          M = memset0 M m (n - m - m);
          (i, M) = for_up4 (n - 1 - prefetch_distance - 3) (lms_length_step_32s_1k m) (n - m) M;
          (i, M) = for_up (n - 1) (lms_length_step_32s_1k m) i M;
          M = wr M (SAm + unsigned32 (rd M (n - 1)) div 2) (1 + INT_MIN);
          clear = (\<lambda>i M. wr M (SAm + i)
                            ((if rd M (SAm + i) < 0 then rd M (SAm + i) else 0) AND INT_MAX));
          (i, M) = for_up4 (n div 2 - 3) clear 0 M;
          (i, M) = for_up (n div 2) clear i M;
          name = 1;
          p = rd M 0;
          plen = rd M (SAm + p div 2);
          pdiff = INT_MIN;
          (i, st) = for_up2 (m - prefetch_distance - 1) (lms_name_step_32s_1k T m) 1
                      (p, plen, pdiff, name, M);
          (i, p, plen, pdiff, name, M) = for_up m (lms_name_step_32s_1k T m) i st;
          M = wr M (SAm + p div 2) (name OR pdiff);
          name = name + 1;
          M = (if name \<le> m
               then
                 let (i, st) = for_up4 (m + n div 2 - 3) mark_distinct_step_32s m (- 1, M);
                     (i, p3, M) = for_up (m + n div 2) mark_distinct_step_32s i st
                 in M
               else M)
      in (name - 1, M))"

subsection \<open>Placement of the sorted LMS suffixes\<close>

definition place_lms_bucket :: "int \<Rightarrow> int \<Rightarrow> int \<times> int \<times> mem \<Rightarrow> int \<times> int \<times> mem" where
  "place_lms_bucket l i = (\<lambda>(j, m, M).
     if l > 0
     then
       let M = (if j - i > 0 then memset0 M i (j - i) else M);
           j = i - l;
           m = m - l
       in (j, m, memmove M j m l)
     else (j, m, M))"

definition libsais_place_lms_suffixes_interval_32s_4k ::
    "mem \<Rightarrow> int \<Rightarrow> int \<Rightarrow> int \<Rightarrow> int \<Rightarrow> mem" where
  "libsais_place_lms_suffixes_interval_32s_4k M n k m buckets =
     (let bucket_end = buckets + 3 * k;
          (c, j, m, M) =
            for_down 0
              (\<lambda>c (j, m, M).
                 let l = rd M (buckets + BUCKETS_INDEX2 c 1 + BUCKETS_INDEX2 1 0)
                           - rd M (buckets + BUCKETS_INDEX2 c 1)
                 in place_lms_bucket l (rd M (bucket_end + c)) (j, m, M))
              (k - 2) (n, m, M)
      in memset0 M 0 j)"

definition libsais_place_lms_suffixes_interval_32s_2k ::
    "mem \<Rightarrow> int \<Rightarrow> int \<Rightarrow> int \<Rightarrow> int \<Rightarrow> mem" where
  "libsais_place_lms_suffixes_interval_32s_2k M n k m buckets =
     (let (c, j, m, M) =
            for_down_by (BUCKETS_INDEX2 1 0) (BUCKETS_INDEX2 0 0)
              (\<lambda>c (j, m, M).
                 let l = rd M (buckets + c + BUCKETS_INDEX2 1 1)
                           - rd M (buckets + c + BUCKETS_INDEX2 0 1)
                 in place_lms_bucket l (rd M (buckets + c)) (j, m, M))
              (BUCKETS_INDEX2 (k - 2) 0) (n, m, M)
      in memset0 M 0 j)"

definition place_lms_step_32s_1k :: "int \<Rightarrow> int \<Rightarrow> int \<Rightarrow> int \<times> int \<times> mem \<Rightarrow> int \<times> int \<times> mem" where
  "place_lms_step_32s_1k T buckets i = (\<lambda>(c, l, M).
     let p = rd M i;
         (c, l, M) =
           (if rd M (T + p) \<noteq> c
            then
              let c = rd M (T + p);
                  M = memset0 M (rd M (buckets + c)) (l - rd M (buckets + c));
                  l = rd M (buckets + c)
              in (c, l, M)
            else (c, l, M));
         l = l - 1
     in (c, l, wr M l p))"

definition libsais_place_lms_suffixes_interval_32s_1k ::
    "mem \<Rightarrow> int \<Rightarrow> int \<Rightarrow> int \<Rightarrow> int \<Rightarrow> mem" where
  "libsais_place_lms_suffixes_interval_32s_1k M T k m buckets =
     (let prefetch_distance = 32;
          c = k - 1;
          l = rd M (buckets + c);
          (i, st) = for_down4 (prefetch_distance + 3) (place_lms_step_32s_1k T buckets) (m - 1)
                      (c, l, M);
          (i, c, l, M) = for_down 0 (place_lms_step_32s_1k T buckets) i st
      in memset0 M 0 l)"

definition libsais_place_lms_suffixes_histogram_32s_6k ::
    "mem \<Rightarrow> int \<Rightarrow> int \<Rightarrow> int \<Rightarrow> int \<Rightarrow> mem" where
  "libsais_place_lms_suffixes_histogram_32s_6k M n k m buckets =
     (let bucket_end = buckets + 5 * k;
          (c, j, m, M) =
            for_down 0
              (\<lambda>c (j, m, M).
                 let l = rd M (buckets + BUCKETS_INDEX4 c 1)
                 in place_lms_bucket l (rd M (bucket_end + c)) (j, m, M))
              (k - 2) (n, m, M)
      in memset0 M 0 j)"

definition libsais_place_lms_suffixes_histogram_32s_4k ::
    "mem \<Rightarrow> int \<Rightarrow> int \<Rightarrow> int \<Rightarrow> int \<Rightarrow> mem" where
  "libsais_place_lms_suffixes_histogram_32s_4k M n k m buckets =
     (let bucket_end = buckets + 3 * k;
          (c, j, m, M) =
            for_down 0
              (\<lambda>c (j, m, M).
                 let l = rd M (buckets + BUCKETS_INDEX2 c 1)
                 in place_lms_bucket l (rd M (bucket_end + c)) (j, m, M))
              (k - 2) (n, m, M)
      in memset0 M 0 j)"

definition libsais_place_lms_suffixes_histogram_32s_2k ::
    "mem \<Rightarrow> int \<Rightarrow> int \<Rightarrow> int \<Rightarrow> int \<Rightarrow> mem" where
  "libsais_place_lms_suffixes_histogram_32s_2k M n k m buckets =
     (let (c, j, m, M) =
            for_down_by (BUCKETS_INDEX2 1 0) (BUCKETS_INDEX2 0 0)
              (\<lambda>c (j, m, M).
                 let l = rd M (buckets + c + BUCKETS_INDEX2 0 1)
                 in place_lms_bucket l (rd M (buckets + c)) (j, m, M))
              (BUCKETS_INDEX2 (k - 2) 0) (n, m, M)
      in memset0 M 0 j)"

subsection \<open>Final induced sorting\<close>

definition final_sorting_step_left_to_right_32s :: "int \<Rightarrow> int \<Rightarrow> int \<Rightarrow> mem \<Rightarrow> mem" where
  "final_sorting_step_left_to_right_32s T induction_bucket i M =
     (let p = rd M i;
          M = wr M i (p XOR INT_MIN)
      in if p > 0
         then
           let p = p - 1;
               x = p OR sign_bit_of (rd M (T + p - of_bool (p > 0)) < rd M (T + p));
               b = induction_bucket + rd M (T + p);
               a = rd M b;
               M = incr M b
           in wr M a x
         else M)"

definition libsais_final_sorting_scan_left_to_right_32s ::
    "mem \<Rightarrow> int \<Rightarrow> int \<Rightarrow> int \<Rightarrow> mem" where
  "libsais_final_sorting_scan_left_to_right_32s M T n induction_bucket =
     (let prefetch_distance = 32;
          x = (n - 1) OR sign_bit_of (rd M (T + n - 2) < rd M (T + n - 1));
          b = induction_bucket + rd M (T + n - 1);
          a = rd M b;
          M = incr M b;
          M = wr M a x;
          (i, M) = for_up2 (n - 2 * prefetch_distance - 1)
                     (final_sorting_step_left_to_right_32s T induction_bucket) 0 M;
          (i, M) = for_up n (final_sorting_step_left_to_right_32s T induction_bucket) i M
      in M)"

definition final_sorting_step_right_to_left_32s :: "int \<Rightarrow> int \<Rightarrow> int \<Rightarrow> mem \<Rightarrow> mem" where
  "final_sorting_step_right_to_left_32s T induction_bucket i M =
     (let p = rd M i;
          M = wr M i (p AND INT_MAX)
      in if p > 0
         then
           let p = p - 1;
               x = p OR sign_bit_of (rd M (T + p - of_bool (p > 0)) > rd M (T + p));
               b = induction_bucket + rd M (T + p);
               M = decr M b
           in wr M (rd M b) x
         else M)"

definition libsais_final_sorting_scan_right_to_left_32s ::
    "mem \<Rightarrow> int \<Rightarrow> int \<Rightarrow> int \<Rightarrow> mem" where
  "libsais_final_sorting_scan_right_to_left_32s M T n induction_bucket =
     (let prefetch_distance = 32;
          (i, M) = for_down2 (2 * prefetch_distance + 1)
                     (final_sorting_step_right_to_left_32s T induction_bucket) (n - 1) M;
          (i, M) = for_down 0 (final_sorting_step_right_to_left_32s T induction_bucket) i M
      in M)"

definition libsais_induce_final_order_32s_6k :: "mem \<Rightarrow> int \<Rightarrow> int \<Rightarrow> int \<Rightarrow> int \<Rightarrow> mem" where
  "libsais_induce_final_order_32s_6k M T n k buckets =
     (let M = libsais_final_sorting_scan_left_to_right_32s M T n (buckets + 4 * k)
      in libsais_final_sorting_scan_right_to_left_32s M T n (buckets + 5 * k))"

definition libsais_induce_final_order_32s_4k :: "mem \<Rightarrow> int \<Rightarrow> int \<Rightarrow> int \<Rightarrow> int \<Rightarrow> mem" where
  "libsais_induce_final_order_32s_4k M T n k buckets =
     (let M = libsais_final_sorting_scan_left_to_right_32s M T n (buckets + 2 * k)
      in libsais_final_sorting_scan_right_to_left_32s M T n (buckets + 3 * k))"

definition libsais_induce_final_order_32s_2k :: "mem \<Rightarrow> int \<Rightarrow> int \<Rightarrow> int \<Rightarrow> int \<Rightarrow> mem" where
  "libsais_induce_final_order_32s_2k M T n k buckets =
     (let M = libsais_final_sorting_scan_left_to_right_32s M T n (buckets + 1 * k)
      in libsais_final_sorting_scan_right_to_left_32s M T n (buckets + 0 * k))"

definition libsais_induce_final_order_32s_1k :: "mem \<Rightarrow> int \<Rightarrow> int \<Rightarrow> int \<Rightarrow> int \<Rightarrow> mem" where
  "libsais_induce_final_order_32s_1k M T n k buckets =
     (let M = libsais_count_suffixes_32s M T n k buckets;
          M = libsais_initialize_buckets_start_32s_1k M k buckets;
          M = libsais_final_sorting_scan_left_to_right_32s M T n buckets;
          M = libsais_count_suffixes_32s M T n k buckets;
          M = libsais_initialize_buckets_end_32s_1k M k buckets
      in libsais_final_sorting_scan_right_to_left_32s M T n buckets)"

subsection \<open>Compaction of the reduced problem\<close>

definition renumber_unique_step_32s :: "int \<Rightarrow> int \<Rightarrow> int \<Rightarrow> int \<times> mem \<Rightarrow> int \<times> mem" where
  "renumber_unique_step_32s T m i = (\<lambda>(f, M).
     let SAm = m;
         p = unsigned32 (rd M i);
         s = rd M (SAm + p div 2);
         (f, s, M) =
           (if s < 0
            then let M = wr M (T + p) (rd M (T + p) OR INT_MIN); f = f + 1
                 in (f, i + INT_MIN + f, M)
            else (f, s, M))
     in (f, wr M (SAm + p div 2) (s - f)))"

definition libsais_renumber_unique_and_nonunique_lms_suffixes_32s ::
    "mem \<Rightarrow> int \<Rightarrow> int \<Rightarrow> int \<Rightarrow> int \<Rightarrow> int \<Rightarrow> int \<times> mem" where
  "libsais_renumber_unique_and_nonunique_lms_suffixes_32s M T m f omp_block_start omp_block_size =
     (let prefetch_distance = 32;
          (i, st) = for_up4 (omp_block_start + omp_block_size - 2 * prefetch_distance - 3)
                      (renumber_unique_step_32s T m) omp_block_start (f, M);
          (i, st) = for_up (omp_block_start + omp_block_size) (renumber_unique_step_32s T m) i st
      in st)"

definition compact_step_32s :: "int \<Rightarrow> int \<times> int \<times> mem \<Rightarrow> int \<times> int \<times> mem" where
  "compact_step_32s i = (\<lambda>(l, r, M).
     let p = rd M i;
         M = wr M l (p AND INT_MAX);
         l = l - of_bool (p < 0);
         M = wr M r (p - 1);
         r = r - of_bool (p > 0)
     in (l, r, M))"

text \<open>The in-out parameters \<^verbatim>\<open>*pl\<close> and \<^verbatim>\<open>*pr\<close> are passed in and returned.\<close>

definition libsais_compact_unique_and_nonunique_lms_suffixes_32s ::
    "mem \<Rightarrow> int \<Rightarrow> int \<Rightarrow> int \<Rightarrow> int \<Rightarrow> int \<Rightarrow> int \<times> int \<times> mem" where
  "libsais_compact_unique_and_nonunique_lms_suffixes_32s M m pl pr omp_block_start omp_block_size =
     (let l = pl - 1; r = pr - 1;
          (i, st) = for_down4 (m + omp_block_start + 3) compact_step_32s
                      (m + omp_block_start + omp_block_size - 1) (l, r, M);
          (i, l, r, M) = for_down (m + omp_block_start) compact_step_32s i st
      in (l + 1, r + 1, M))"

definition libsais_renumber_unique_and_nonunique_lms_suffixes_32s_omp ::
    "mem \<Rightarrow> int \<Rightarrow> int \<Rightarrow> int \<times> mem" where
  "libsais_renumber_unique_and_nonunique_lms_suffixes_32s_omp M T m =
     libsais_renumber_unique_and_nonunique_lms_suffixes_32s M T m 0 0 m"

definition libsais_compact_unique_and_nonunique_lms_suffixes_32s_omp ::
    "mem \<Rightarrow> int \<Rightarrow> int \<Rightarrow> int \<Rightarrow> int \<Rightarrow> mem" where
  "libsais_compact_unique_and_nonunique_lms_suffixes_32s_omp M n m fs f =
     (let (l, r, M) = libsais_compact_unique_and_nonunique_lms_suffixes_32s M m m (n + fs) 0 (n div 2)
      in memmove M (n + fs - m) (m - f) f)"

definition libsais_compact_lms_suffixes_32s_omp ::
    "mem \<Rightarrow> int \<Rightarrow> int \<Rightarrow> int \<Rightarrow> int \<Rightarrow> int \<times> mem" where
  "libsais_compact_lms_suffixes_32s_omp M T n m fs =
     (let (f, M) = libsais_renumber_unique_and_nonunique_lms_suffixes_32s_omp M T m
      in (f, libsais_compact_unique_and_nonunique_lms_suffixes_32s_omp M n m fs f))"

subsection \<open>Merging the unique LMS suffixes back\<close>

text \<open>
  The loops of \<^verbatim>\<open>libsais_merge_unique_lms_suffixes_32s\<close> advance \<^verbatim>\<open>i\<close> inside their body
  (an LMS position is never followed by another one), so \<open>i\<close> is part of the state of the
  step; \<open>merge_unique_step T off\<close> is the statement of the body that looks at \<^verbatim>\<open>T[i + off]\<close>.
\<close>

definition merge_unique_step :: "int \<Rightarrow> int \<Rightarrow> int \<times> int \<times> int \<times> mem \<Rightarrow> int \<times> int \<times> int \<times> mem" where
  "merge_unique_step T off = (\<lambda>(i, tmp, SAnm, M).
     let c = rd M (T + i + off)
     in if c < 0
        then
          let M = wr M (T + i + off) (c AND INT_MAX);
              M = wr M tmp (i + off)
          in (i + 1, rd M SAnm, SAnm + 1, M)
        else (i, tmp, SAnm, M))"

lemma merge_unique_step_mono: "fst st \<le> fst (merge_unique_step T off st)"
  by (cases st) (simp add: merge_unique_step_def Let_def)

function merge_unique_loop4 ::
    "int \<Rightarrow> int \<Rightarrow> int \<times> int \<times> int \<times> mem \<Rightarrow> int \<times> int \<times> int \<times> mem" where
  "merge_unique_loop4 T j st =
     (if fst st < j
      then
        let (i, rest) = merge_unique_step T 3 (merge_unique_step T 2
                          (merge_unique_step T 1 (merge_unique_step T 0 st)))
        in merge_unique_loop4 T j (i + 4, rest)
      else st)"
  by pat_completeness auto
termination
proof (relation "measure (\<lambda>(T, j, st). nat (j - fst st))", goal_cases)
  case 1
  show ?case by simp
next
  case (2 T j st x i rest)
  have "fst st \<le> fst (merge_unique_step T 3 (merge_unique_step T 2
                          (merge_unique_step T 1 (merge_unique_step T 0 st))))"
    by (meson merge_unique_step_mono order_trans)
  moreover have "fst (merge_unique_step T 3 (merge_unique_step T 2
                          (merge_unique_step T 1 (merge_unique_step T 0 st)))) = i"
    using 2 by (metis fst_conv)
  ultimately show ?case using 2(1) by simp
qed

function merge_unique_loop1 ::
    "int \<Rightarrow> int \<Rightarrow> int \<times> int \<times> int \<times> mem \<Rightarrow> int \<times> int \<times> int \<times> mem" where
  "merge_unique_loop1 T j st =
     (if fst st < j
      then
        let (i, rest) = merge_unique_step T 0 st
        in merge_unique_loop1 T j (i + 1, rest)
      else st)"
  by pat_completeness auto
termination
proof (relation "measure (\<lambda>(T, j, st). nat (j - fst st))", goal_cases)
  case 1
  show ?case by simp
next
  case (2 T j st x i rest)
  have "fst st \<le> fst (merge_unique_step T 0 st)"
    by (rule merge_unique_step_mono)
  moreover have "fst (merge_unique_step T 0 st) = i"
    using 2 by (metis fst_conv)
  ultimately show ?case using 2(1) by simp
qed

declare merge_unique_loop4.simps [simp del] merge_unique_loop1.simps [simp del]

definition libsais_merge_unique_lms_suffixes_32s ::
    "mem \<Rightarrow> int \<Rightarrow> int \<Rightarrow> int \<Rightarrow> int \<Rightarrow> int \<Rightarrow> int \<Rightarrow> mem" where
  "libsais_merge_unique_lms_suffixes_32s M T n m l omp_block_start omp_block_size =
     (let SAnm = n - m - 1 + l;
          tmp = rd M SAnm;
          SAnm = SAnm + 1;
          st = merge_unique_loop4 T (omp_block_start + omp_block_size - 6)
                 (omp_block_start, tmp, SAnm, M);
          (i, tmp, SAnm, M) = merge_unique_loop1 T (omp_block_start + omp_block_size) st
      in M)"

definition merge_nonunique_step :: "int \<Rightarrow> int \<times> int \<times> mem \<Rightarrow> int \<times> int \<times> mem" where
  "merge_nonunique_step i = (\<lambda>(tmp, SAnm, M).
     if rd M i = 0
     then let M = wr M i tmp in (rd M SAnm, SAnm + 1, M)
     else (tmp, SAnm, M))"

definition libsais_merge_nonunique_lms_suffixes_32s ::
    "mem \<Rightarrow> int \<Rightarrow> int \<Rightarrow> int \<Rightarrow> int \<Rightarrow> int \<Rightarrow> mem" where
  "libsais_merge_nonunique_lms_suffixes_32s M n m l omp_block_start omp_block_size =
     (let SAnm = n - m - 1 + l;
          tmp = rd M SAnm;
          SAnm = SAnm + 1;
          (i, st) = for_up4 (omp_block_start + omp_block_size - 3) merge_nonunique_step
                      omp_block_start (tmp, SAnm, M);
          (i, tmp, SAnm, M) = for_up (omp_block_start + omp_block_size) merge_nonunique_step i st
      in M)"

definition libsais_merge_unique_lms_suffixes_32s_omp :: "mem \<Rightarrow> int \<Rightarrow> int \<Rightarrow> int \<Rightarrow> mem" where
  "libsais_merge_unique_lms_suffixes_32s_omp M T n m =
     libsais_merge_unique_lms_suffixes_32s M T n m 0 0 n"

definition libsais_merge_nonunique_lms_suffixes_32s_omp :: "mem \<Rightarrow> int \<Rightarrow> int \<Rightarrow> int \<Rightarrow> mem" where
  "libsais_merge_nonunique_lms_suffixes_32s_omp M n m f =
     libsais_merge_nonunique_lms_suffixes_32s M n m f 0 m"

definition libsais_merge_compacted_lms_suffixes_32s_omp ::
    "mem \<Rightarrow> int \<Rightarrow> int \<Rightarrow> int \<Rightarrow> int \<Rightarrow> mem" where
  "libsais_merge_compacted_lms_suffixes_32s_omp M T n m f =
     (let M = libsais_merge_unique_lms_suffixes_32s_omp M T n m
      in libsais_merge_nonunique_lms_suffixes_32s_omp M n m f)"

definition libsais_reconstruct_compacted_lms_suffixes_32s_2k_omp ::
    "mem \<Rightarrow> int \<Rightarrow> int \<Rightarrow> int \<Rightarrow> int \<Rightarrow> int \<Rightarrow> int \<Rightarrow> int \<Rightarrow> mem" where
  "libsais_reconstruct_compacted_lms_suffixes_32s_2k_omp M T n k m fs f buckets =
     (if f > 0
      then
        let M = memmove M (n - m - 1) (n + fs - m) f;
            (_, M) = libsais_count_and_gather_compacted_lms_suffixes_32s_2k_omp M T n k buckets;
            M = libsais_reconstruct_lms_suffixes_omp M n (m - f);
            M = memmove M (n - m - 1 + f) 0 (m - f);
            M = memset0 M 0 m
        in libsais_merge_compacted_lms_suffixes_32s_omp M T n m f
      else
        let (_, M) = libsais_count_and_gather_lms_suffixes_32s_2k M T n k buckets
        in libsais_reconstruct_lms_suffixes_omp M n m)"

definition libsais_reconstruct_compacted_lms_suffixes_32s_1k_omp ::
    "mem \<Rightarrow> int \<Rightarrow> int \<Rightarrow> int \<Rightarrow> int \<Rightarrow> int \<Rightarrow> mem" where
  "libsais_reconstruct_compacted_lms_suffixes_32s_1k_omp M T n m fs f =
     (if f > 0
      then
        let M = memmove M (n - m - 1) (n + fs - m) f;
            (_, M) = libsais_gather_compacted_lms_suffixes_32s M T n;
            M = libsais_reconstruct_lms_suffixes_omp M n (m - f);
            M = memmove M (n - m - 1 + f) 0 (m - f);
            M = memset0 M 0 m
        in libsais_merge_compacted_lms_suffixes_32s_omp M T n m f
      else
        let (_, M) = libsais_gather_lms_suffixes_32s M T n
        in libsais_reconstruct_lms_suffixes_omp M n m)"

section \<open>The recursive driver\<close>

text \<open>
  The integer driver finds room for its bucket table in the free space behind the suffix array,
  aligned when there is enough of it, and asks the allocator only in the last variant.
  The environment records what the store model cannot know: the byte address of \<^verbatim>\<open>SA[0]\<close>,
  needed by \<^verbatim>\<open>libsais_align_up\<close>, and the outcome of each allocation, in the order in which
  they are requested: \<open>None\<close> for a null pointer, otherwise the cell (relative to \<^verbatim>\<open>SA\<close>) at
  which the aligned block starts.
\<close>

record env =
  SA_address :: int
  alloc_result :: "nat \<Rightarrow> int option"

definition c_div :: "int \<Rightarrow> int \<Rightarrow> int" where
  "c_div a b = sgn a * sgn b * (\<bar>a\<bar> div \<bar>b\<bar>)"

definition libsais_align_up :: "int \<Rightarrow> int \<Rightarrow> int" where
  "libsais_align_up address alignment = (address + alignment - 1) AND (- alignment)"

text \<open>\<^verbatim>\<open>(int *)libsais_align_up(&SA[x], alignment * sizeof(int))\<close>, as a cell of the store.\<close>

definition aligned_cell :: "env \<Rightarrow> int \<Rightarrow> int \<Rightarrow> int" where
  "aligned_cell E x alignment =
     (libsais_align_up (SA_address E + 4 * x) (alignment * 4) - SA_address E) div 4"

definition libsais_alloc_aligned :: "env \<Rightarrow> nat \<Rightarrow> int option \<times> nat" where
  "libsais_alloc_aligned E a = (alloc_result E a, Suc a)"

function libsais_main_32s ::
    "env \<Rightarrow> nat \<Rightarrow> mem \<Rightarrow> int \<Rightarrow> int \<Rightarrow> int \<Rightarrow> int \<Rightarrow> int \<times> nat \<times> mem" where
  "libsais_main_32s E a M T n k fs =
    (if k > 0 \<and> c_div fs k \<ge> 6 then
       let alignment = (if c_div (fs - 1024) k \<ge> 6 then 1024 else 16);
           buckets = (if c_div (fs - alignment) k \<ge> 6
                      then aligned_cell E (n + fs - 6 * k - alignment) alignment
                      else n + fs - 6 * k);
           (m, M) = libsais_count_and_gather_lms_suffixes_32s_4k_omp M T n k buckets
       in if m > 1 then
            let M = memset0 M 0 (n - m);
                first_lms_suffix = rd M (n - m);
                (left_suffixes_count, M) =
                  libsais_initialize_buckets_for_lms_suffixes_radix_sort_32s_6k M T k buckets first_lms_suffix;
                M = libsais_radix_sort_lms_suffixes_32s_6k M T n m (buckets + 4 * k);
                M = libsais_radix_sort_set_markers_32s_6k_omp M k (buckets + 4 * k);
                M = libsais_initialize_buckets_for_partial_sorting_32s_6k M T k buckets
                      first_lms_suffix left_suffixes_count;
                M = libsais_induce_partial_order_32s_6k M T n k buckets first_lms_suffix left_suffixes_count;
                (names, M) = libsais_renumber_and_mark_distinct_lms_suffixes_32s_4k_omp M n m;
                (r, a, M) =
                  (if names < m then
                     let (f, M) = libsais_compact_lms_suffixes_32s_omp M T n m fs;
                         (r, a, M) = libsais_main_32s E a M (n + fs - m + f) (m - f) (names - f)
                                       (fs + n - 2 * m + f)
                     in if r \<noteq> 0 then (- 2, a, M)
                        else (0, a, libsais_reconstruct_compacted_lms_suffixes_32s_2k_omp M T n k m fs f buckets)
                   else (0, a, libsais_count_lms_suffixes_32s_2k M T n k buckets))
            in if r \<noteq> 0 then (r, a, M)
               else
                 let M = libsais_initialize_buckets_start_and_end_32s_4k M k buckets;
                     M = libsais_place_lms_suffixes_histogram_32s_4k M n k m buckets;
                     M = libsais_induce_final_order_32s_4k M T n k buckets
                 in (0, a, M)
          else
            let M = wr M 0 (rd M (n - 1));
                M = libsais_initialize_buckets_start_and_end_32s_6k M k buckets;
                M = libsais_place_lms_suffixes_histogram_32s_6k M n k m buckets;
                M = libsais_induce_final_order_32s_6k M T n k buckets
            in (0, a, M)
     else if k > 0 \<and> c_div fs k \<ge> 4 then
       let alignment = (if c_div (fs - 1024) k \<ge> 4 then 1024 else 16);
           buckets = (if c_div (fs - alignment) k \<ge> 4
                      then aligned_cell E (n + fs - 4 * k - alignment) alignment
                      else n + fs - 4 * k);
           (m, M) = libsais_count_and_gather_lms_suffixes_32s_2k_omp M T n k buckets;
           (r, a, M) =
             (if m > 1 then
                let M = libsais_initialize_buckets_for_radix_and_partial_sorting_32s_4k M T k buckets
                          (rd M (n - m));
                    M = libsais_radix_sort_lms_suffixes_32s_2k M T n m (buckets + 1);
                    M = libsais_radix_sort_set_markers_32s_4k_omp M k (buckets + 1);
                    M = libsais_place_lms_suffixes_interval_32s_4k M n k (m - 1) buckets;
                    M = libsais_induce_partial_order_32s_4k M T n k buckets;
                    (names, M) = libsais_renumber_and_mark_distinct_lms_suffixes_32s_4k_omp M n m
                in if names < m then
                     let (f, M) = libsais_compact_lms_suffixes_32s_omp M T n m fs;
                         (r, a, M) = libsais_main_32s E a M (n + fs - m + f) (m - f) (names - f)
                                       (fs + n - 2 * m + f)
                     in if r \<noteq> 0 then (- 2, a, M)
                        else (0, a, libsais_reconstruct_compacted_lms_suffixes_32s_2k_omp M T n k m fs f buckets)
                   else (0, a, libsais_count_lms_suffixes_32s_2k M T n k buckets)
              else (0, a, wr M 0 (rd M (n - 1))))
       in if r \<noteq> 0 then (r, a, M)
          else
            let M = libsais_initialize_buckets_start_and_end_32s_4k M k buckets;
                M = libsais_place_lms_suffixes_histogram_32s_4k M n k m buckets;
                M = libsais_induce_final_order_32s_4k M T n k buckets
            in (0, a, M)
     else if k > 0 \<and> c_div fs k \<ge> 2 then
       let alignment = (if c_div (fs - 1024) k \<ge> 2 then 1024 else 16);
           buckets = (if c_div (fs - alignment) k \<ge> 2
                      then aligned_cell E (n + fs - 2 * k - alignment) alignment
                      else n + fs - 2 * k);
           (m, M) = libsais_count_and_gather_lms_suffixes_32s_2k_omp M T n k buckets;
           (r, a, M) =
             (if m > 1 then
                let M = libsais_initialize_buckets_for_lms_suffixes_radix_sort_32s_2k M T k buckets
                          (rd M (n - m));
                    M = libsais_radix_sort_lms_suffixes_32s_2k M T n m (buckets + 1);
                    M = libsais_place_lms_suffixes_interval_32s_2k M n k (m - 1) buckets;
                    M = libsais_initialize_buckets_start_and_end_32s_2k M k buckets;
                    M = libsais_induce_partial_order_32s_2k M T n k buckets;
                    (names, M) = libsais_renumber_and_mark_distinct_lms_suffixes_32s_1k M T n m
                in if names < m then
                     let (f, M) = libsais_compact_lms_suffixes_32s_omp M T n m fs;
                         (r, a, M) = libsais_main_32s E a M (n + fs - m + f) (m - f) (names - f)
                                       (fs + n - 2 * m + f)
                     in if r \<noteq> 0 then (- 2, a, M)
                        else (0, a, libsais_reconstruct_compacted_lms_suffixes_32s_2k_omp M T n k m fs f buckets)
                   else (0, a, libsais_count_lms_suffixes_32s_2k M T n k buckets)
              else (0, a, wr M 0 (rd M (n - 1))))
       in if r \<noteq> 0 then (r, a, M)
          else
            let M = libsais_initialize_buckets_end_32s_2k M k buckets;
                M = libsais_place_lms_suffixes_histogram_32s_2k M n k m buckets;
                M = libsais_initialize_buckets_start_and_end_32s_2k M k buckets;
                M = libsais_induce_final_order_32s_2k M T n k buckets
            in (0, a, M)
     else
       let (buffer, a) = (if fs < k then libsais_alloc_aligned E a else (None, a));
           alignment = (if fs - 1024 \<ge> k then 1024 else 16);
           buckets = (if fs - alignment \<ge> k
                      then Some (aligned_cell E (n + fs - k - alignment) alignment)
                      else if fs \<ge> k then Some (n + fs - k) else buffer)
       in case buckets of
            None \<Rightarrow> (- 2, a, M)
          | Some b \<Rightarrow>
              let M = memset0 M 0 n;
                  M = libsais_count_suffixes_32s M T n k b;
                  M = libsais_initialize_buckets_end_32s_1k M k b;
                  (m, M) = libsais_radix_sort_lms_suffixes_32s_1k M T n b;
                  (r, a, buckets, M) =
                    (if m > 1 then
                       let M = libsais_induce_partial_order_32s_1k M T n k b;
                           (names, M) = libsais_renumber_and_mark_distinct_lms_suffixes_32s_1k M T n m;
                           (r, a, buckets, M) =
                             (if names < m then
                                let buckets = (if buffer \<noteq> None then None else buckets);
                                    (f, M) = libsais_compact_lms_suffixes_32s_omp M T n m fs;
                                    (r, a, M) = libsais_main_32s E a M (n + fs - m + f) (m - f) (names - f)
                                                  (fs + n - 2 * m + f)
                                in if r \<noteq> 0 then (- 2, a, buckets, M)
                                   else
                                     let M = libsais_reconstruct_compacted_lms_suffixes_32s_1k_omp M T n m fs f;
                                         (buckets, a) = (if buckets = None then libsais_alloc_aligned E a
                                                         else (buckets, a))
                                     in if buckets = None then (- 2, a, buckets, M) else (0, a, buckets, M)
                              else (0, a, buckets, M))
                       in case buckets of
                            None \<Rightarrow> (r, a, buckets, M)
                          | Some b \<Rightarrow>
                              if r \<noteq> 0 then (r, a, buckets, M)
                              else
                                let M = libsais_count_suffixes_32s M T n k b;
                                    M = libsais_initialize_buckets_end_32s_1k M k b;
                                    M = libsais_place_lms_suffixes_interval_32s_1k M T k m b
                                in (0, a, buckets, M)
                     else (0, a, buckets, M))
              in case buckets of
                   None \<Rightarrow> (r, a, M)
                 | Some b \<Rightarrow>
                     if r \<noteq> 0 then (r, a, M)
                     else (0, a, libsais_induce_final_order_32s_1k M T n k b))"
  by pat_completeness auto

subsection \<open>At most every other position is an LMS position\<close>

lemma lms_count_bound_step:
  assumes b: "b = 0 \<or> b = 1"
    and inv: "2 * c + 1 - (s AND 1) \<le> t"
  shows "2 * (c + of_bool ((shl1 s + b) AND 3 = 1)) + 1 - ((shl1 s + b) AND 1) \<le> t + 1"
proof -
  have s01: "s AND 1 = 0 \<or> s AND 1 = 1" unfolding and_1_eq_mod by presburger
  show ?thesis
    unfolding and_3_shl1[OF b] and_1_shl1[OF b] using b s01 inv by (elim disjE) simp_all
qed

lemma of_bool_01: "(of_bool P :: int) = 0 \<or> (of_bool P :: int) = 1"
  by simp

definition lms_count_inv :: "int \<Rightarrow> int \<Rightarrow> int \<times> int \<times> int \<times> mem \<Rightarrow> bool" where
  "lms_count_inv n i = (\<lambda>(c0, s, m, M). 2 * (n - 1 - m) + 1 - (s AND 1) \<le> n - 2 - i)"

lemma lms_count_loop:
  fixes f :: "int \<Rightarrow> int \<times> int \<times> int \<times> mem \<Rightarrow> int \<times> int \<times> int \<times> mem"
  assumes step: "\<And>i c0 s m M. \<exists>c1 b M'. (b = 0 \<or> b = 1) \<and>
            f i (c0, s, m, M) = (c1, shl1 s + b, m - of_bool ((shl1 s + b) AND 3 = 1), M')"
    and run: "for_down4 j' f (n - 2) (c, 1, n - 1, M0) = (i1, st1)"
             "for_down 0 f i1 st1 = (i2, c0, s, m, M)"
    and j': "3 \<le> j'"
  shows "2 * (n - 1 - m) \<le> max 0 (n - 1)"
proof -
  have all: "for_down 0 f (n - 2) (c, 1, n - 1, M0) = (i2, c0, s, m, M)"
    using for_down4_collapse[of 0 j' f "n - 2" "(c, 1, n - 1, M0)"] j' run by simp
  show ?thesis
  proof (cases "1 \<le> n")
    case True
    have init: "lms_count_inv n (n - 2) (c, 1, n - 1, M0)"
      by (simp add: lms_count_inv_def)
    have pres: "lms_count_inv n (k - 1) (f k t)" if "lms_count_inv n k t" for k t
    proof -
      obtain c0 s m M where t: "t = (c0, s, m, M)" by (cases t)
      obtain c1 b M' where b: "b = 0 \<or> b = 1"
        and f: "f k (c0, s, m, M) = (c1, shl1 s + b, m - of_bool ((shl1 s + b) AND 3 = 1), M')"
        using step[of k c0 s m M] by blast
      have "2 * (n - 1 - m) + 1 - (s AND 1) \<le> n - 2 - k"
        using that unfolding t lms_count_inv_def by simp
      from lms_count_bound_step[OF b this]
      show ?thesis unfolding t f lms_count_inv_def by (simp add: algebra_simps)
    qed
    have "lms_count_inv n (0 - 1) (snd (for_down 0 f (n - 2) (c, 1, n - 1, M0)))"
      using for_down_inv[of "lms_count_inv n" "n - 2" "(c, 1, n - 1, M0)" 0 f, OF init] pres True
      by simp
    then have "2 * (n - 1 - m) + 1 - (s AND 1) \<le> n - 1"
      unfolding all lms_count_inv_def by simp
    moreover have "s AND 1 = 0 \<or> s AND 1 = 1" unfolding and_1_eq_mod by presburger
    ultimately show ?thesis by auto
  next
    case False
    then have "for_down 0 f (n - 2) (c, 1, n - 1, M0) = (n - 2, c, 1, n - 1, M0)"
      by (simp add: for_down_stop)
    then show ?thesis using all by simp
  qed
qed

lemma count_and_gather_32s_4k_bound:
  "2 * fst (libsais_count_and_gather_lms_suffixes_32s_4k M T n k buckets) \<le> max 0 (n - 1)"
proof -
  let ?f = "count_and_gather_step_32s_4k T buckets"
  let ?st0 = "(rd (memset0 M buckets (4 * k)) (T + n - 1), 1, n - 1, memset0 M buckets (4 * k))"
  obtain i1 st1 where a: "for_down4 35 ?f (n - 2) ?st0 = (i1, st1)" by (meson surj_pair)
  obtain i2 c0 s m M' where b: "for_down 0 ?f i1 st1 = (i2, c0, s, m, M')"
    by (cases "for_down 0 ?f i1 st1") auto
  have step: "\<exists>c1 b M'. (b = 0 \<or> b = 1) \<and>
            ?f i (c0, s, m, M) = (c1, shl1 s + b, m - of_bool ((shl1 s + b) AND 3 = 1), M')"
    for i c0 s m M
    unfolding count_and_gather_step_32s_4k_def Let_def prod.case
    using of_bool_01 by blast
  have "2 * (n - 1 - m) \<le> max 0 (n - 1)"
    by (rule lms_count_loop[where f = ?f, OF step a b]) simp
  then show ?thesis
    by (simp add: libsais_count_and_gather_lms_suffixes_32s_4k_def Let_def a b)
qed

lemma count_and_gather_32s_2k_bound:
  "2 * fst (libsais_count_and_gather_lms_suffixes_32s_2k M T n k buckets) \<le> max 0 (n - 1)"
proof -
  let ?f = "count_and_gather_step_32s_2k T buckets"
  let ?st0 = "(rd (memset0 M buckets (2 * k)) (T + n - 1), 1, n - 1, memset0 M buckets (2 * k))"
  obtain i1 st1 where a: "for_down4 35 ?f (n - 2) ?st0 = (i1, st1)" by (meson surj_pair)
  obtain i2 c0 s m M' where b: "for_down 0 ?f i1 st1 = (i2, c0, s, m, M')"
    by (cases "for_down 0 ?f i1 st1") auto
  have step: "\<exists>c1 b M'. (b = 0 \<or> b = 1) \<and>
            ?f i (c0, s, m, M) = (c1, shl1 s + b, m - of_bool ((shl1 s + b) AND 3 = 1), M')"
    for i c0 s m M
    unfolding count_and_gather_step_32s_2k_def Let_def prod.case
    using of_bool_01 by blast
  have "2 * (n - 1 - m) \<le> max 0 (n - 1)"
    by (rule lms_count_loop[where f = ?f, OF step a b]) simp
  then show ?thesis
    by (simp add: libsais_count_and_gather_lms_suffixes_32s_2k_def Let_def a b)
qed

lemma radix_sort_32s_1k_bound:
  "2 * fst (libsais_radix_sort_lms_suffixes_32s_1k M T n buckets) \<le> max 0 (n - 1)"
proof -
  let ?f = "radix_sort_step_32s_1k T buckets"
  let ?st0 = "(rd M (T + n - 1), 0, 1, 0, M)"
  let ?P = "\<lambda>i (c0 :: int, c2 :: int, s, m, M :: mem). 2 * m + 1 - (s AND 1) \<le> n - 2 - i"
  obtain i1 st1 where a: "for_down4 35 ?f (n - 2) ?st0 = (i1, st1)" by (meson surj_pair)
  obtain i2 c0 c2 s m M' where b: "for_down 0 ?f i1 st1 = (i2, c0, c2, s, m, M')"
    by (cases "for_down 0 ?f i1 st1") auto
  have all: "for_down 0 ?f (n - 2) ?st0 = (i2, c0, c2, s, m, M')"
    using for_down4_collapse[of 0 35 ?f "n - 2" ?st0] a b by simp
  have bound: "2 * m \<le> max 0 (n - 1)"
  proof (cases "1 \<le> n")
    case True
    have init: "?P (n - 2) ?st0" by simp
    have pres: "?P (k - 1) (?f k t)" if "?P k t" for k t
    proof -
      obtain c0 c2 s m M where t: "t = (c0, c2, s, m, M)" by (cases t)
      define b :: int where "b = of_bool (rd M (T + k) > c0 - (s AND 1))"
      have b: "b = 0 \<or> b = 1" unfolding b_def by simp
      have "2 * m + 1 - (s AND 1) \<le> n - 2 - k" using that unfolding t by simp
      from lms_count_bound_step[OF b this]
      have "2 * (m + of_bool ((shl1 s + b) AND 3 = 1)) + 1 - ((shl1 s + b) AND 1) \<le> n - 2 - k + 1" .
      then show ?thesis
        unfolding t radix_sort_step_32s_1k_def Let_def prod.case b_def[symmetric]
        by (cases "(shl1 s + b) AND 3 = 1") simp_all
    qed
    have "?P (0 - 1) (snd (for_down 0 ?f (n - 2) ?st0))"
      using for_down_inv[of ?P "n - 2" ?st0 0 ?f, OF init] pres True by simp
    then have "2 * m + 1 - (s AND 1) \<le> n - 1" unfolding all by simp
    moreover have "s AND 1 = 0 \<or> s AND 1 = 1" unfolding and_1_eq_mod by presburger
    ultimately show ?thesis by auto
  next
    case False
    then have "for_down 0 ?f (n - 2) ?st0 = (n - 2, ?st0)" by (simp add: for_down_stop)
    then show ?thesis using all by simp
  qed
  show ?thesis
    using bound by (simp add: libsais_radix_sort_lms_suffixes_32s_1k_def Let_def a b)
qed

lemma renumber_unique_step_nonneg:
  "0 \<le> fst st \<Longrightarrow> 0 \<le> fst (renumber_unique_step_32s T m i st)"
  by (cases st) (simp add: renumber_unique_step_32s_def Let_def)

lemma compact_lms_suffixes_32s_nonneg:
  "0 \<le> fst (libsais_compact_lms_suffixes_32s_omp M T n m fs)"
proof -
  let ?f = "renumber_unique_step_32s T m"
  let ?P = "\<lambda>(i :: int) (st :: int \<times> mem). 0 \<le> fst st"
  obtain i1 st1 where a: "for_up4 (m - 67) ?f 0 (0, M) = (i1, st1)" by (meson surj_pair)
  obtain i2 f M' where b: "for_up m ?f i1 st1 = (i2, f, M')"
    by (cases "for_up m ?f i1 st1") auto
  have all: "for_up m ?f 0 (0, M) = (i2, f, M')"
    using for_up4_collapse[of "m - 67" m ?f 0 "(0, M)"] a b by simp
  have "0 \<le> f"
  proof (cases "0 \<le> m")
    case True
    have "?P m (snd (for_up m ?f 0 (0, M)))"
      using for_up_inv[of ?P 0 "(0, M)" m ?f] renumber_unique_step_nonneg True by simp
    then show ?thesis unfolding all by simp
  next
    case False
    then have "for_up m ?f 0 (0, M) = (0, 0, M)" by (simp add: for_up_stop)
    then show ?thesis using all by simp
  qed
  then show ?thesis
    by (simp add: libsais_compact_lms_suffixes_32s_omp_def
        libsais_renumber_unique_and_nonunique_lms_suffixes_32s_omp_def
        libsais_renumber_unique_and_nonunique_lms_suffixes_32s_def Let_def a b)
qed

text \<open>The reduced text is shorter than half the text: the recursion of the driver ends.\<close>

lemma reduced_length_less:
  assumes "2 * m \<le> max 0 (n - 1)" and "1 < m" and "0 \<le> f"
  shows "nat (m - f) < nat n"
  using assms by auto

lemma count_and_gather_32s_4k_omp_bound:
  "2 * fst (libsais_count_and_gather_lms_suffixes_32s_4k_omp M T n k buckets) \<le> max 0 (n - 1)"
  unfolding libsais_count_and_gather_lms_suffixes_32s_4k_omp_def
  by (rule count_and_gather_32s_4k_bound)

lemma count_and_gather_32s_2k_omp_bound:
  "2 * fst (libsais_count_and_gather_lms_suffixes_32s_2k_omp M T n k buckets) \<le> max 0 (n - 1)"
  unfolding libsais_count_and_gather_lms_suffixes_32s_2k_omp_def
  by (rule count_and_gather_32s_2k_bound)

lemma main_32s_call_decreases:
  assumes "(m, y) = C" and "C = C'" and "2 * fst C' \<le> max 0 (n - 1)" and "1 < m"
    and "(f, y') = D" and "D = D'" and "0 \<le> fst D'"
  shows "((E', a', M', T', m - f, k', fs'), (E, a, M, T, n, k, fs))
           \<in> measure (\<lambda>(E, a, M, T, n, k, fs). nat n)"
proof -
  have "m = fst C'" "f = fst D'" using assms(1,2,5,6) by (metis fst_conv)+
  then show ?thesis using assms(3,4,7) by auto
qed

termination libsais_main_32s
proof (relation "measure (\<lambda>(E, a, M, T, n, k, fs). nat n)", goal_cases)
  case 1
  show ?case by simp
next
  case 2
  then show ?case
    by - (rule main_32s_call_decreases, assumption, assumption, rule count_and_gather_32s_4k_omp_bound,
        assumption, assumption, assumption, rule compact_lms_suffixes_32s_nonneg)
next
  case 3
  then show ?case
    by - (rule main_32s_call_decreases, assumption, assumption, rule count_and_gather_32s_2k_omp_bound,
        assumption, assumption, assumption, rule compact_lms_suffixes_32s_nonneg)
next
  case 4
  then show ?case
    by - (rule main_32s_call_decreases, assumption, assumption, rule count_and_gather_32s_2k_omp_bound,
        assumption, assumption, assumption, rule compact_lms_suffixes_32s_nonneg)
next
  case 5
  then show ?case
    by - (rule main_32s_call_decreases, assumption, assumption, rule radix_sort_32s_1k_bound,
        assumption, assumption, assumption, rule compact_lms_suffixes_32s_nonneg)
qed

declare libsais_main_32s.simps [simp del]

section \<open>The byte driver and the entry points\<close>

definition libsais_count_and_gather_lms_suffixes_8u_omp ::
    "string \<Rightarrow> mem \<Rightarrow> int \<Rightarrow> mem \<Rightarrow> int \<times> mem \<times> mem" where
  "libsais_count_and_gather_lms_suffixes_8u_omp T SA n buckets =
     libsais_count_and_gather_lms_suffixes_8u T SA n buckets 0 n"

text \<open>
  \<open>buckets\<close> is the outcome of the allocation of the bucket table: \<open>None\<close> for a null pointer,
  otherwise the block with whatever it holds. The result is the return value and the array.
\<close>

definition libsais_main_8u ::
    "env \<Rightarrow> mem option \<Rightarrow> string \<Rightarrow> mem \<Rightarrow> int \<Rightarrow> bool \<Rightarrow> int \<Rightarrow> int \<times> mem" where
  "libsais_main_8u E buckets T SA n bwt fs =
     (case buckets of
        None \<Rightarrow> (- 2, SA)
      | Some buckets \<Rightarrow>
          let (m, SA, buckets) = libsais_count_and_gather_lms_suffixes_8u_omp T SA n buckets;
              buckets = libsais_initialize_buckets_start_and_end_8u buckets;
              (r, SA, buckets) =
                (if m > 0 then
                   let first_lms_suffix = rd SA (n - m);
                       (left_suffixes_count, buckets) =
                         libsais_initialize_buckets_for_lms_suffixes_radix_sort_8u T buckets first_lms_suffix;
                       (SA, buckets) = libsais_radix_sort_lms_suffixes_8u_omp T SA n m buckets;
                       buckets = libsais_initialize_buckets_for_partial_sorting_8u T buckets
                                   first_lms_suffix left_suffixes_count;
                       (SA, buckets) = libsais_induce_partial_order_8u_omp T SA n buckets
                                         first_lms_suffix left_suffixes_count;
                       (names, SA) = libsais_renumber_and_gather_lms_suffixes_8u_omp SA n m fs;
                       (r, SA) =
                         (if names < m then
                            let (r, a, SA) = libsais_main_32s E 0 SA (n + fs - m) m names (fs + n - 2 * m)
                            in if r \<noteq> 0 then (- 2, SA)
                               else
                                 let SA = libsais_gather_lms_suffixes_8u_omp T SA n
                                 in (0, libsais_reconstruct_lms_suffixes_omp SA n m)
                          else (0, SA))
                   in if r \<noteq> 0 then (r, SA, buckets)
                      else (0, libsais_place_lms_suffixes_interval_8u SA n m buckets, buckets)
                 else (0, memset0 SA 0 n, buckets))
          in if r \<noteq> 0 then (r, SA)
             else
               let (index, SA, buckets) = libsais_induce_final_order_8u_omp T SA n bwt buckets
               in (index, SA))"

text \<open>
  The output bytes are a list that is written by index; a write outside the list is dropped.
\<close>

definition uchar :: "int \<Rightarrow> char" where
  "uchar x = char_of (x mod 256)"

definition libsais_bwt_copy_8u :: "string \<Rightarrow> int \<Rightarrow> mem \<Rightarrow> int \<Rightarrow> int \<Rightarrow> string" where
  "libsais_bwt_copy_8u U u A a n =
     (let cp = (\<lambda>i U. U[nat (u + i) := uchar (rd A (a + i))]);
          (i, U) = for_up8 (n - 7) cp 0 U;
          (i, U) = for_up n cp i U
      in U)"

text \<open>
  A null pointer argument is \<open>None\<close>. The result is the return value and the array
  (for \<open>libsais_bwt\<close>: the output bytes and the array).
\<close>

definition libsais ::
    "env \<Rightarrow> mem option \<Rightarrow> string option \<Rightarrow> mem option \<Rightarrow> int \<Rightarrow> int \<Rightarrow> int \<times> mem option" where
  "libsais E buckets T SA n fs =
     (case (T, SA) of
        (Some T', Some SA') \<Rightarrow>
          if n < 0 \<or> fs < 0 then (- 1, SA)
          else if n < 2 then (0, if n = 1 then Some (wr SA' 0 0) else SA)
          else let (r, SA') = libsais_main_8u E buckets T' SA' n False fs in (r, Some SA')
      | _ \<Rightarrow> (- 1, SA))"

definition libsais_bwt ::
    "env \<Rightarrow> mem option \<Rightarrow> string option \<Rightarrow> string option \<Rightarrow> mem option \<Rightarrow> int \<Rightarrow> int
      \<Rightarrow> int \<times> string option \<times> mem option" where
  "libsais_bwt E buckets T U A n fs =
     (case (T, U, A) of
        (Some T', Some U', Some A') \<Rightarrow>
          if n < 0 \<or> fs < 0 then (- 1, U, A)
          else if n \<le> 1 then (n, if n = 1 then Some (U'[0 := uchar (byte_at T' 0)]) else U, A)
          else
            let (index, A') = libsais_main_8u E buckets T' A' n True fs
            in if index \<ge> 0
               then
                 let U' = U'[0 := uchar (byte_at T' (n - 1))];
                     U' = libsais_bwt_copy_8u U' 1 A' 0 index;
                     U' = libsais_bwt_copy_8u U' (1 + index) A' (1 + index) (n - index - 1)
                 in (index + 1, Some U', Some A')
               else (index, Some U', Some A')
      | _ \<Rightarrow> (- 1, U, A))"

section \<open>Equations for evaluation\<close>

text \<open>
  Rewriting evaluates the bound value of a \<open>let\<close> before it enters the body, but it rewrites
  under the binders of a tuple pattern and of a \<open>case\<close> first, where a loop over a bucket
  table, whose bounds are constants, would be unrolled on a store that is not yet known.  For
  evaluation the definitions are therefore used with their tuple patterns written as
  projections and the case distinction on an optional pointer as a conditional.
\<close>

lemmas projections = case_prod_unfold option.case_eq_if

lemmas evaluation_equations [code] =
  lms_scan_step_def[unfolded projections] libsais_count_and_gather_lms_suffixes_8u_def[unfolded projections] memmove_def[unfolded projections]
  lms_gather_step_def[unfolded projections] libsais_gather_lms_suffixes_8u_def[unfolded projections]
  libsais_initialize_buckets_start_and_end_8u_def[unfolded projections]
  libsais_initialize_buckets_for_lms_suffixes_radix_sort_8u_def[unfolded projections]
  libsais_initialize_buckets_for_partial_sorting_8u_def[unfolded projections] radix_sort_step_8u_def[unfolded projections]
  libsais_radix_sort_lms_suffixes_8u_def[unfolded projections] sign_bit_of_def[unfolded projections]
  partial_sorting_step_left_to_right_8u_def[unfolded projections] libsais_partial_sorting_scan_left_to_right_8u_def[unfolded projections]
  libsais_partial_sorting_scan_left_to_right_8u_omp_def[unfolded projections] shift_markers_step_def[unfolded projections]
  libsais_partial_sorting_shift_markers_8u_omp_def[unfolded projections] partial_sorting_step_right_to_left_8u_def[unfolded projections]
  libsais_partial_sorting_scan_right_to_left_8u_def[unfolded projections]
  libsais_partial_sorting_scan_right_to_left_8u_omp_def[unfolded projections] libsais_induce_partial_order_8u_omp_def[unfolded projections]
  renumber_step_8u_def[unfolded projections] libsais_renumber_lms_suffixes_8u_def[unfolded projections] gather_marked_step_8u_def[unfolded projections]
  libsais_gather_marked_suffixes_8u_def[unfolded projections] libsais_renumber_and_gather_lms_suffixes_8u_omp_def[unfolded projections]
  libsais_reconstruct_lms_suffixes_def[unfolded projections] libsais_place_lms_suffixes_interval_8u_def[unfolded projections]
  final_bwt_step_left_to_right_8u_def[unfolded projections] libsais_final_bwt_scan_left_to_right_8u_def[unfolded projections]
  final_sorting_step_left_to_right_8u_def[unfolded projections] libsais_final_sorting_scan_left_to_right_8u_def[unfolded projections]
  libsais_final_bwt_scan_left_to_right_8u_omp_def[unfolded projections]
  libsais_final_sorting_scan_left_to_right_8u_omp_def[unfolded projections] final_bwt_step_right_to_left_8u_def[unfolded projections]
  libsais_final_bwt_scan_right_to_left_8u_def[unfolded projections] final_sorting_step_right_to_left_8u_def[unfolded projections]
  libsais_final_sorting_scan_right_to_left_8u_def[unfolded projections] libsais_induce_final_order_8u_omp_def[unfolded projections]
  gather_step_32s_def[unfolded projections] libsais_gather_lms_suffixes_32s_def[unfolded projections] gather_compacted_step_32s_def[unfolded projections]
  libsais_gather_compacted_lms_suffixes_32s_def[unfolded projections] count_step_32s_2k_def[unfolded projections]
  libsais_count_lms_suffixes_32s_2k_def[unfolded projections] count_and_gather_step_32s_4k_def[unfolded projections]
  libsais_count_and_gather_lms_suffixes_32s_4k_def[unfolded projections] count_and_gather_step_32s_2k_def[unfolded projections]
  libsais_count_and_gather_lms_suffixes_32s_2k_def[unfolded projections] count_and_gather_compacted_step_32s_2k_def[unfolded projections]
  libsais_count_and_gather_compacted_lms_suffixes_32s_2k_def[unfolded projections] libsais_count_suffixes_32s_def[unfolded projections]
  libsais_initialize_buckets_start_and_end_32s_6k_def[unfolded projections]
  libsais_initialize_buckets_start_and_end_32s_4k_def[unfolded projections] libsais_initialize_buckets_end_32s_2k_def[unfolded projections]
  libsais_initialize_buckets_start_and_end_32s_2k_def[unfolded projections]
  libsais_initialize_buckets_start_32s_1k_def[unfolded projections] libsais_initialize_buckets_end_32s_1k_def[unfolded projections]
  libsais_initialize_buckets_for_lms_suffixes_radix_sort_32s_2k_def[unfolded projections]
  libsais_initialize_buckets_for_lms_suffixes_radix_sort_32s_6k_def[unfolded projections]
  libsais_initialize_buckets_for_radix_and_partial_sorting_32s_4k_def[unfolded projections]
  partial_sorting_bucket_row_32s_6k_def[unfolded projections]
  libsais_initialize_buckets_for_partial_sorting_32s_6k_def[unfolded projections]
  libsais_radix_sort_lms_suffixes_32s_6k_def[unfolded projections] libsais_radix_sort_lms_suffixes_32s_2k_def[unfolded projections]
  radix_sort_step_32s_1k_def[unfolded projections] libsais_radix_sort_lms_suffixes_32s_1k_def[unfolded projections]
  libsais_radix_sort_set_markers_32s_6k_def[unfolded projections] libsais_radix_sort_set_markers_32s_4k_def[unfolded projections]
  partial_sorting_step_left_to_right_32s_6k_def[unfolded projections]
  libsais_partial_sorting_scan_left_to_right_32s_6k_def[unfolded projections]
  partial_sorting_step_left_to_right_32s_4k_def[unfolded projections]
  libsais_partial_sorting_scan_left_to_right_32s_4k_def[unfolded projections]
  partial_sorting_step_left_to_right_32s_1k_def[unfolded projections]
  libsais_partial_sorting_scan_left_to_right_32s_1k_def[unfolded projections]
  libsais_partial_sorting_shift_markers_32s_6k_omp_def[unfolded projections]
  libsais_partial_sorting_shift_markers_32s_4k_def[unfolded projections]
  libsais_partial_sorting_shift_buckets_32s_6k_def[unfolded projections]
  partial_sorting_step_right_to_left_32s_6k_def[unfolded projections]
  libsais_partial_sorting_scan_right_to_left_32s_6k_def[unfolded projections]
  partial_sorting_step_right_to_left_32s_4k_def[unfolded projections]
  libsais_partial_sorting_scan_right_to_left_32s_4k_def[unfolded projections]
  partial_sorting_step_right_to_left_32s_1k_def[unfolded projections]
  libsais_partial_sorting_scan_right_to_left_32s_1k_def[unfolded projections]
  libsais_partial_sorting_gather_lms_suffixes_32s_4k_def[unfolded projections]
  libsais_partial_sorting_gather_lms_suffixes_32s_1k_def[unfolded projections]
  libsais_induce_partial_order_32s_6k_def[unfolded projections] libsais_induce_partial_order_32s_4k_def[unfolded projections]
  renumber_distinct_step_32s_4k_def[unfolded projections] libsais_renumber_distinct_lms_suffixes_32s_4k_def[unfolded projections]
  mark_distinct_step_32s_def[unfolded projections] libsais_mark_distinct_lms_suffixes_32s_4k_def[unfolded projections]
  libsais_renumber_distinct_lms_suffixes_32s_4k_omp_def[unfolded projections]
  libsais_renumber_and_mark_distinct_lms_suffixes_32s_4k_omp_def[unfolded projections] lms_name_step_32s_1k_def[unfolded projections]
  libsais_renumber_and_mark_distinct_lms_suffixes_32s_1k_def[unfolded projections] place_lms_bucket_def[unfolded projections]
  libsais_place_lms_suffixes_interval_32s_4k_def[unfolded projections] libsais_place_lms_suffixes_interval_32s_2k_def[unfolded projections]
  place_lms_step_32s_1k_def[unfolded projections] libsais_place_lms_suffixes_interval_32s_1k_def[unfolded projections]
  libsais_place_lms_suffixes_histogram_32s_6k_def[unfolded projections]
  libsais_place_lms_suffixes_histogram_32s_4k_def[unfolded projections]
  libsais_place_lms_suffixes_histogram_32s_2k_def[unfolded projections] final_sorting_step_left_to_right_32s_def[unfolded projections]
  libsais_final_sorting_scan_left_to_right_32s_def[unfolded projections] final_sorting_step_right_to_left_32s_def[unfolded projections]
  libsais_final_sorting_scan_right_to_left_32s_def[unfolded projections] renumber_unique_step_32s_def[unfolded projections]
  libsais_renumber_unique_and_nonunique_lms_suffixes_32s_def[unfolded projections] compact_step_32s_def[unfolded projections]
  libsais_compact_unique_and_nonunique_lms_suffixes_32s_def[unfolded projections]
  libsais_compact_unique_and_nonunique_lms_suffixes_32s_omp_def[unfolded projections]
  libsais_compact_lms_suffixes_32s_omp_def[unfolded projections] merge_unique_step_def[unfolded projections] merge_unique_loop4.simps[unfolded projections]
  merge_unique_loop1.simps[unfolded projections] libsais_merge_unique_lms_suffixes_32s_def[unfolded projections] merge_nonunique_step_def[unfolded projections]
  libsais_merge_nonunique_lms_suffixes_32s_def[unfolded projections]
  libsais_reconstruct_compacted_lms_suffixes_32s_2k_omp_def[unfolded projections]
  libsais_reconstruct_compacted_lms_suffixes_32s_1k_omp_def[unfolded projections] libsais_main_32s.simps[unfolded projections]
  lms_count_inv_def[unfolded projections] libsais_main_8u_def[unfolded projections] uchar_def[unfolded projections] libsais_bwt_copy_8u_def[unfolded projections] libsais_def[unfolded projections]

subsection \<open>The contract of the type scanner\<close>

text \<open>
  The notions of the specification, written from its words: position \<open>i\<close> is S-type when
  \<open>T[i] < T[i+1]\<close>, or \<open>T[i] = T[i+1]\<close> and \<open>i + 1\<close> is S-type, and L-type otherwise; the
  sentinel one past the end is the smallest symbol, so the last position is L-type.  An LMS
  position is an S-type position whose left neighbour is L-type.  The 2-bit state of a
  position is (type of the position, type of its left neighbour), 1 for L, the left
  neighbour of position 0 counting as S.
\<close>

function L_type :: "string \<Rightarrow> nat \<Rightarrow> bool" where
  "L_type T i =
     (if length T \<le> i then False
      else if Suc i = length T then True
      else byte_at T (int i) > byte_at T (int i + 1)
           \<or> (byte_at T (int i) = byte_at T (int i + 1) \<and> L_type T (Suc i)))"
  by pat_completeness auto
termination
  by (relation "measure (\<lambda>(T, i). length T - i)") auto

declare L_type.simps [simp del]

definition is_LMS :: "string \<Rightarrow> nat \<Rightarrow> bool" where
  "is_LMS T i \<longleftrightarrow> 0 < i \<and> i < length T \<and> \<not> L_type T i \<and> L_type T (i - 1)"

definition lms_positions :: "string \<Rightarrow> nat list" where
  "lms_positions T = filter (is_LMS T) [0..<length T]"

definition type_state :: "string \<Rightarrow> nat \<Rightarrow> int" where
  "type_state T p = 2 * of_bool (L_type T p) + of_bool (0 < p \<and> L_type T (p - 1))"

definition count_state :: "string \<Rightarrow> int \<Rightarrow> int \<Rightarrow> int" where
  "count_state T c s =
     int (length (filter (\<lambda>p. byte_at T (int p) = c \<and> type_state T p = s) [0..<length T]))"

definition lms_scan_inv :: "string \<Rightarrow> int \<Rightarrow> int \<times> int \<times> int \<times> mem \<times> mem \<Rightarrow> bool" where
  "lms_scan_inv T k = (\<lambda>(c0, s, m, SA, B).
     let L = filter (is_LMS T) [nat (k + 2)..<length T] in
       c0 = byte_at T (k + 1)
     \<and> s AND 1 = of_bool (L_type T (nat (k + 1)))
     \<and> m = int (length T) - 1 - int (length L)
     \<and> (\<forall>j < length L. rd SA (m + 1 + int j) = int (L ! j))
     \<and> (\<forall>c s. 0 \<le> c \<and> c < 256 \<and> 0 \<le> s \<and> s < 4 \<longrightarrow>
           rd B (BUCKETS_INDEX4 c s) =
             int (length (filter (\<lambda>p. byte_at T (int p) = c \<and> type_state T p = s)
                    [nat (k + 2)..<length T]))))"

lemma byte_at_range: "0 \<le> byte_at T i \<and> byte_at T i < 256"
proof -
  have "of_char c < (256::int)" for c
    by (cases c) (simp add: of_char_def)
  moreover have "0 \<le> (of_char c :: int)" for c by (simp add: of_char_def)
  ultimately show ?thesis by (simp add: byte_at_def)
qed

lemma type_state_range: "0 \<le> type_state T p \<and> type_state T p < 4"
  by (simp add: type_state_def)

lemma index4_inj:
  "0 \<le> s \<Longrightarrow> s < 4 \<Longrightarrow> 0 \<le> s' \<Longrightarrow> s' < 4 \<Longrightarrow>
   BUCKETS_INDEX4 c s = BUCKETS_INDEX4 c' s' \<longleftrightarrow> c = c' \<and> s = s'"
  unfolding BUCKETS_INDEX4_def by presburger

lemma L_type_step:
  "Suc k < length T \<Longrightarrow>
   L_type T k \<longleftrightarrow> byte_at T (int k) > byte_at T (int k + 1) - of_bool (L_type T (Suc k))"
  by (subst L_type.simps) auto

lemma L_type_last: "Suc k = length T \<Longrightarrow> L_type T k"
  by (subst L_type.simps) auto

lemma lms_scan_step_inv:
  assumes inv: "lms_scan_inv T k st" and k: "0 \<le> k" "k + 1 < int (length T)"
  shows "lms_scan_inv T (k - 1) (lms_scan_step (byte_at T k) k st)"
proof -
  obtain c0 s m SA B where st: "st = (c0, s, m, SA, B)" by (cases st) auto
  define N where "N = length T"
  define L where "L = filter (is_LMS T) [nat (k + 2)..<N]"
  define K where "K = nat k"
  have K: "k = int K" "Suc K < N" using k by (auto simp: K_def N_def)
  have nk: "nat (k + 2) = Suc (Suc K)" "nat (k + 1) = Suc K" "nat (k - 1 + 2) = Suc K" "nat (k - 1 + 1) = K"
    using K by auto
  have a: "c0 = byte_at T (k + 1)"
    and b: "s AND 1 = of_bool (L_type T (Suc K))"
    and d: "m = int N - 1 - int (length L)"
    and e: "\<forall>j < length L. rd SA (m + 1 + int j) = int (L ! j)"
    and f: "\<forall>c s. 0 \<le> c \<and> c < 256 \<and> 0 \<le> s \<and> s < 4 \<longrightarrow>
           rd B (BUCKETS_INDEX4 c s) =
             int (length (filter (\<lambda>p. byte_at T (int p) = c \<and> type_state T p = s)
                    [Suc (Suc K)..<N]))"
    using inv unfolding lms_scan_inv_def st L_def N_def Let_def nk prod.case by blast+
  define bb :: int where "bb = of_bool (byte_at T k > c0 - (s AND 1))"
  have bb: "bb = of_bool (L_type T K)"
    unfolding bb_def a b using L_type_step[of K T] K by (simp add: N_def)
  have bb01: "bb = 0 \<or> bb = 1" by (auto simp: bb)
  define s' where "s' = shl1 s + bb"
  have s3: "s' AND 3 = type_state T (Suc K)"
  proof -
    have "s' AND 3 = 2 * (s AND 1) + bb" unfolding s'_def by (rule and_3_shl1[OF bb01])
    then show ?thesis by (simp add: b bb type_state_def)
  qed
  have s1: "s' AND 1 = of_bool (L_type T K)"
  proof -
    have "s' AND 1 = bb" unfolding s'_def by (rule and_1_shl1[OF bb01])
    then show ?thesis by (simp add: bb)
  qed
  have lms: "s' AND 3 = 1 \<longleftrightarrow> is_LMS T (Suc K)"
    unfolding s3 type_state_def is_LMS_def using K by (auto simp: N_def)
  have upt: "[Suc K..<N] = Suc K # [Suc (Suc K)..<N]"
    using K by (simp add: upt_conv_Cons)
  define L' where "L' = filter (is_LMS T) [Suc K..<N]"
  have L': "L' = (if is_LMS T (Suc K) then Suc K # L else L)"
    unfolding L'_def L_def upt nk by simp
  define m' where "m' = m - of_bool (s' AND 3 = 1)"
  have m': "m' = int N - 1 - int (length L')"
    unfolding m'_def d L' lms by simp
  have e': "\<forall>j < length L'. rd (wr SA m (k + 1)) (m' + 1 + int j) = int (L' ! j)"
  proof (intro allI impI)
    fix j assume j: "j < length L'"
    show "rd (wr SA m (k + 1)) (m' + 1 + int j) = int (L' ! j)"
    proof (cases "is_LMS T (Suc K)")
      case True
      then have mm: "m' = m - 1" unfolding m'_def lms by simp
      show ?thesis
      proof (cases j)
        case 0
        then show ?thesis using True mm K by (simp add: L')
      next
        case (Suc j')
        then have "j' < length L" using j True by (simp add: L')
        then have r: "rd SA (m + 1 + int j') = int (L ! j')" using e by blast
        have idx: "m' + 1 + int j = m + 1 + int j'" using mm Suc by simp
        have "rd (wr SA m (k + 1)) (m' + 1 + int j) = rd SA (m + 1 + int j')"
          unfolding idx by (simp add: rd_wr)
        also have "\<dots> = int (L ! j')" by (rule r)
        also have "L ! j' = L' ! j" using True Suc by (simp add: L')
        finally show ?thesis .
      qed
    next
      case False
      then have mm: "m' = m" unfolding m'_def lms by simp
      have "j < length L" using j False by (simp add: L')
      then have r: "rd SA (m + 1 + int j) = int (L ! j)" using e by blast
      have "rd (wr SA m (k + 1)) (m' + 1 + int j) = rd SA (m + 1 + int j)"
        unfolding mm by (simp add: rd_wr)
      also have "\<dots> = int (L ! j)" by (rule r)
      also have "L ! j = L' ! j" using False by (simp add: L')
      finally show ?thesis .
    qed
  qed
  have c0r: "0 \<le> c0 \<and> c0 < 256" unfolding a by (rule byte_at_range)
  have f': "\<forall>c s. 0 \<le> c \<and> c < 256 \<and> 0 \<le> s \<and> s < 4 \<longrightarrow>
           rd (incr B (BUCKETS_INDEX4 c0 (s' AND 3))) (BUCKETS_INDEX4 c s) =
             int (length (filter (\<lambda>p. byte_at T (int p) = c \<and> type_state T p = s)
                    [Suc K..<N]))"
  proof (intro allI impI)
    fix c s :: int assume cs: "0 \<le> c \<and> c < 256 \<and> 0 \<le> s \<and> s < 4"
    have eq: "BUCKETS_INDEX4 c s = BUCKETS_INDEX4 c0 (s' AND 3) \<longleftrightarrow> c = c0 \<and> s = type_state T (Suc K)"
      unfolding s3 using cs type_state_range[of T "Suc K"] by (simp add: index4_inj)
    have c0': "c0 = byte_at T (int (Suc K))" unfolding a using K by (simp add: add.commute)
    show "rd (incr B (BUCKETS_INDEX4 c0 (s' AND 3))) (BUCKETS_INDEX4 c s) =
             int (length (filter (\<lambda>p. byte_at T (int p) = c \<and> type_state T p = s) [Suc K..<N]))"
      unfolding upt incr_def rd_wr eq using f cs c0' 
      by (auto simp: s3)
  qed
  have res: "lms_scan_step (byte_at T k) k st =
      (byte_at T k, s', m', wr SA m (k + 1), incr B (BUCKETS_INDEX4 c0 (s' AND 3)))"
    unfolding lms_scan_step_def st by (simp add: Let_def s'_def bb_def m'_def)
  show ?thesis
    unfolding res lms_scan_inv_def prod.case Let_def nk
    using s1 m' e' f' unfolding L'_def N_def by simp
qed

lemma skip_equal_end: "skip_equal T n c0 n c1 = (n, c1)"
  by (simp add: skip_equal.simps[of T n c0 n c1])

lemma lms_scan_loop:
  assumes n: "int (length T) = n" "1 \<le> n"
    and inv: "lms_scan_inv T (n - 2) st"
  shows "fst (for_down 0 (\<lambda>i. lms_scan_step (byte_at T i) i) (n - 2) st) = - 1 \<and>
         lms_scan_inv T (- 1) (snd (for_down 0 (\<lambda>i. lms_scan_step (byte_at T i) i) (n - 2) st))"
proof -
  let ?f = "\<lambda>i. lms_scan_step (byte_at T i) i"
  have "fst (for_down 0 ?f (n - 2) st) = 0 - 1 \<and>
        lms_scan_inv T (0 - 1) (snd (for_down 0 ?f (n - 2) st))"
  proof (rule for_down_inv[where P = "lms_scan_inv T"])
    show "lms_scan_inv T (n - 2) st" by (rule inv)
    show "\<And>k t. 0 \<le> k \<Longrightarrow> k \<le> n - 2 \<Longrightarrow> lms_scan_inv T k t \<Longrightarrow>
        lms_scan_inv T (k - 1) (lms_scan_step (byte_at T k) k t)"
      using lms_scan_step_inv n by simp
    show "0 \<le> n - 2 + 1" using n by simp
  qed
  then show ?thesis by simp
qed

lemma lms_scan_inv_init:
  assumes n: "int (length T) = n" "1 \<le> n"
  shows "lms_scan_inv T (n - 2) (byte_at T (n - 1), 1, n - 1, SA, memset0 buckets 0 (4 * ALPHABET_SIZE))"
proof -
  have 1: "nat (n - 2 + 2) = length T" "nat (n - 2 + 1) = length T - 1" "n - 2 + 1 = n - 1"
    using n by auto
  have "nat (int (length T) - 1) = length T - 1" by (cases "length T") auto
  moreover have "L_type T (length T - 1)" using n by (intro L_type_last) auto
  ultimately have L: "L_type T (nat (int (length T) - 1))" by simp
  have Z: "0 \<le> c \<and> c < 256 \<and> 0 \<le> s \<and> s < 4 \<Longrightarrow>
      rd (memset0 buckets 0 (4 * ALPHABET_SIZE)) (BUCKETS_INDEX4 c s) = 0" for c s
    by (auto simp: rd_memset0 ALPHABET_SIZE_def BUCKETS_INDEX4_def)
  have n1: "n - 1 = int (length T) - 1" using n by simp
  show ?thesis
    unfolding lms_scan_inv_def prod.case Let_def 1 using L Z n1 by simp
qed

lemma lms_scan_final:
  assumes n: "int (length T) = n" "1 \<le> n"
    and inv: "lms_scan_inv T (- 1) st"
    and fin: "lms_scan_step (- 1) (- 1) st = (c0', s', m', SA', B')"
  shows "n - 1 - m' = int (length (lms_positions T))
       \<and> (\<forall>j < length (lms_positions T). rd SA' (m' + 1 + int j) = int (lms_positions T ! j))
       \<and> (\<forall>c s. 0 \<le> c \<and> c < 256 \<and> 0 \<le> s \<and> s < 4 \<longrightarrow>
             rd B' (BUCKETS_INDEX4 c s) = count_state T c s)"
proof -
  obtain c0 s m SA B where st: "st = (c0, s, m, SA, B)" by (cases st) auto
  define N where "N = length T"
  define L where "L = filter (is_LMS T) [Suc 0..<N]"
  have nk: "nat (- 1 + 2) = Suc 0" "nat (- 1 + 1) = 0" "(- 1 + 1 :: int) = 0" by auto
  have a: "c0 = byte_at T 0"
    and b: "s AND 1 = of_bool (L_type T 0)"
    and d: "m = int N - 1 - int (length L)"
    and e: "\<forall>j < length L. rd SA (m + 1 + int j) = int (L ! j)"
    and f: "\<forall>c s. 0 \<le> c \<and> c < 256 \<and> 0 \<le> s \<and> s < 4 \<longrightarrow>
           rd B (BUCKETS_INDEX4 c s) =
             int (length (filter (\<lambda>p. byte_at T (int p) = c \<and> type_state T p = s)
                    [Suc 0..<N]))"
    using inv unfolding lms_scan_inv_def st L_def N_def Let_def nk nat_0 prod.case by blast+
  have c0r: "0 \<le> c0 \<and> c0 < 256" unfolding a by (rule byte_at_range)
  have s01: "s AND 1 = 0 \<or> s AND 1 = 1" unfolding b by auto
  have bb: "(of_bool (- 1 > c0 - (s AND 1)) :: int) = 0" using c0r s01 by auto
  define s2 where "s2 = shl1 s + 0"
  have s3: "s2 AND 3 = type_state T 0"
  proof -
    have "s2 AND 3 = 2 * (s AND 1) + 0" unfolding s2_def by (rule and_3_shl1) simp
    then show ?thesis by (simp add: b type_state_def)
  qed
  have ne1: "s2 AND 3 \<noteq> 1" unfolding s3 type_state_def by auto
  have res: "lms_scan_step (- 1) (- 1) st =
      (- 1, s2, m, wr SA m 0, incr B (BUCKETS_INDEX4 c0 (s2 AND 3)))"
    unfolding lms_scan_step_def st prod.case Let_def bb s2_def[symmetric] using ne1 by simp
  have r: "m' = m" "SA' = wr SA m 0" "B' = incr B (BUCKETS_INDEX4 c0 (s2 AND 3))"
    using fin res by auto
  have notlms0: "\<not> is_LMS T 0" by (simp add: is_LMS_def)
  have "0 < N" using n by (auto simp: N_def)
  then have upt: "[0..<N] = 0 # [Suc 0..<N]" by (simp add: upt_conv_Cons)
  have Leq: "lms_positions T = L"
    unfolding lms_positions_def L_def N_def[symmetric] upt using notlms0 by simp
  have p1: "n - 1 - m' = int (length (lms_positions T))"
    unfolding r Leq d using n by (simp add: N_def)
  have p2: "\<forall>j < length (lms_positions T). rd SA' (m' + 1 + int j) = int (lms_positions T ! j)"
  proof (intro allI impI)
    fix j assume "j < length (lms_positions T)"
    then have "rd SA (m + 1 + int j) = int (L ! j)" using e Leq by simp
    moreover have "rd (wr SA m 0) (m + 1 + int j) = rd SA (m + 1 + int j)" by (simp add: rd_wr)
    ultimately show "rd SA' (m' + 1 + int j) = int (lms_positions T ! j)"
      unfolding r Leq by simp
  qed
  have p3: "\<forall>c s. 0 \<le> c \<and> c < 256 \<and> 0 \<le> s \<and> s < 4 \<longrightarrow>
             rd B' (BUCKETS_INDEX4 c s) = count_state T c s"
  proof (intro allI impI)
    fix c s :: int assume cs: "0 \<le> c \<and> c < 256 \<and> 0 \<le> s \<and> s < 4"
    have eq: "BUCKETS_INDEX4 c s = BUCKETS_INDEX4 c0 (s2 AND 3) \<longleftrightarrow> c = c0 \<and> s = type_state T 0"
      unfolding s3 using cs type_state_range[of T 0] by (simp add: index4_inj)
    show "rd B' (BUCKETS_INDEX4 c s) = count_state T c s"
      unfolding r count_state_def N_def[symmetric] upt incr_def rd_wr eq using f cs a
      by (auto simp: s3)
  qed
  show ?thesis using p1 p2 p3 by blast
qed

text \<open>
  Claim C5.  On a text of length \<open>n \<ge> 2\<close> the type scanner, run over the whole text,
  returns the number \<open>m\<close> of LMS positions, leaves the LMS positions in ascending text
  order in \<open>SA[n - m .. n)\<close>, and leaves in \<open>buckets[4 c + s]\<close> the number of text
  positions with symbol \<open>c\<close> and 2-bit state \<open>s\<close>.
\<close>

theorem count_and_gather_lms_suffixes_8u_contract:
  assumes "int (length T) = n" and "2 \<le> n"
  shows "case libsais_count_and_gather_lms_suffixes_8u T SA n buckets 0 n of
           (m, SA', buckets') \<Rightarrow>
             m = int (length (lms_positions T))
           \<and> map (\<lambda>j. rd SA' (n - m + int j)) [0..<nat m] = map int (lms_positions T)
           \<and> (\<forall>c s. 0 \<le> c \<and> c < 256 \<and> 0 \<le> s \<and> s < 4 \<longrightarrow>
                 rd buckets' (BUCKETS_INDEX4 c s) = count_state T c s)"
proof -
  have n: "int (length T) = n" "1 \<le> n" using assms by auto
  let ?f = "\<lambda>i. lms_scan_step (byte_at T i) i"
  let ?st0 = "(byte_at T (n - 1), 1::int, n - 1, SA, memset0 buckets 0 (4 * ALPHABET_SIZE))"
  obtain i1 st1 where l4: "for_down4 3 ?f (n - 2) ?st0 = (i1, st1)"
    by (cases "for_down4 3 ?f (n - 2) ?st0") auto
  obtain i2 st2 where l1: "for_down 0 ?f i1 st1 = (i2, st2)"
    by (cases "for_down 0 ?f i1 st1") auto
  have c: "for_down 0 ?f (n - 2) ?st0 = (i2, st2)"
    using for_down4_collapse[of 0 3 ?f "n - 2" ?st0] l4 l1 by simp
  have i2: "i2 = - 1" and inv: "lms_scan_inv T (- 1) st2"
    using lms_scan_loop[OF n lms_scan_inv_init[OF n], of SA buckets] c by simp_all
  obtain c0' s' m' SA' B' where fin: "lms_scan_step (- 1) (- 1) st2 = (c0', s', m', SA', B')"
    by (cases "lms_scan_step (- 1) (- 1) st2") auto
  note F = lms_scan_final[OF n inv fin]
  have c0: "of_bool (byte_at T (n - 1) \<ge> - 1) = (1::int)"
    using byte_at_range[of T "n - 1"] by simp
  have res: "libsais_count_and_gather_lms_suffixes_8u T SA n buckets 0 n = (n - 1 - m', SA', B')"
    unfolding libsais_count_and_gather_lms_suffixes_8u_def Let_def
    using assms(2) l4 l1[unfolded i2] fin
    by (simp add: skip_equal_end c0)
  have m: "n - (n - 1 - m') = m' + 1" by simp
  have "map (\<lambda>j. rd SA' (n - (n - 1 - m') + int j)) [0..<nat (n - 1 - m')] = map int (lms_positions T)"
    unfolding m using F by (intro nth_equalityI) auto
  then show ?thesis unfolding res using F by simp
qed

theorem count_and_gather_lms_suffixes_8u_contract_witness:
  "int (length ''banana'') = 6 \<and> (2::int) \<le> 6 \<and>
   (case libsais_count_and_gather_lms_suffixes_8u ''banana'' (Mem 0 Lf Lf) 6 (Mem 0 Lf Lf) 0 6 of
      (m, SA', buckets') \<Rightarrow>
         m = int (length (lms_positions ''banana''))
       \<and> map (\<lambda>j. rd SA' (6 - m + int j)) [0..<nat m] = map int (lms_positions ''banana'')
       \<and> (\<forall>c s. 0 \<le> c \<and> c < 256 \<and> 0 \<le> s \<and> s < 4 \<longrightarrow>
             rd buckets' (BUCKETS_INDEX4 c s) = count_state ''banana'' c s))"
proof -
  have h1: "int (length ''banana'') = 6" by simp
  have h2: "(2::int) \<le> 6" by simp
  show ?thesis
    using h1 h2 count_and_gather_lms_suffixes_8u_contract[OF h1 h2, of "Mem 0 Lf Lf" "Mem 0 Lf Lf"]
    by blast
qed


end
